theory Spec2Isabelle
  imports Complex_Main "HOL-Library.Monad_Syntax"
begin

section \<open>GermiTrack 1.4: the germination-parameter engine\<close>

text \<open>
  The engine is \<^verbatim>\<open>GermiTrackAnalyzer.calculate_all_germination_parameters\<close> with its two
  helpers \<^verbatim>\<open>_combination\<close> and \<^verbatim>\<open>_calculate_tx\<close> (src/GermiTrack_1.4.py, lines 82-163).

  Cells. A cell of the data frame holds an integer (a day, a daily count) or is blank, which
  pandas reads as \<^verbatim>\<open>nan\<close>. A column without a blank cell is an \<^verbatim>\<open>int64\<close> column. A column with
  a blank cell is a \<^verbatim>\<open>float64\<close> column and stays one after \<^verbatim>\<open>fillna(0)\<close>: its values are
  whole numbers, but they are floats for Python, and \<^verbatim>\<open>math.factorial\<close> refuses a float
  (\<^verbatim>\<open>TypeError\<close>, Python 3.10 and later).

  Floats. Every quantity that numpy computes as a \<^verbatim>\<open>float64\<close> is a real number here; the
  rounding error of the binary format and its overflow are left out. Two things are kept.
  First, where a float stops being finite: a blank day, a division by zero, the square root of
  a negative number, the logarithm of a number that is not positive and the arc sine outside
  \<open>[-1, 1]\<close> are \<^verbatim>\<open>nan\<close> or \<^verbatim>\<open>inf\<close> in numpy (the module silences the warnings, nothing is
  raised). These are the value \<open>None\<close> of \<open>npfloat\<close>; \<open>Some x\<close> is the finite float \<open>x\<close>.
  Second, \<^verbatim>\<open>round\<close> on a tie: when the real value lies exactly half-way between two
  neighbours, the float that the code holds may lie a rounding error below or above it, and
  that decides the direction (23 germinated of 160 seeds is 14.375, which the code holds as
  14.374999999999998 and rounds to 14.37). The model does not fix the direction: every call
  of \<^verbatim>\<open>round\<close> takes it as the parameter \<open>up\<close>, and the engine takes the function \<open>tie\<close> that
  gives it for each replicate and each field. Every theorem holds for every \<open>tie\<close>.
\<close>

subsection \<open>Floats, errors\<close>

datatype error = IndexError | TypeError | ValueError | ZeroDivisionError

type_synonym npfloat = "real option"

definition np_div :: "real \<Rightarrow> real \<Rightarrow> npfloat" where
  "np_div a b = (if b = 0 then None else Some (a / b))"

definition np_sqrt :: "real \<Rightarrow> npfloat" where
  "np_sqrt x = (if x < 0 then None else Some (sqrt x))"

definition np_log2 :: "real \<Rightarrow> npfloat" where
  "np_log2 x = (if 0 < x then Some (log 2 x) else None)"

definition np_arcsin :: "real \<Rightarrow> npfloat" where
  "np_arcsin x = (if - 1 \<le> x \<and> x \<le> 1 then Some (arcsin x) else None)"

text \<open>\<^verbatim>\<open>np.sum\<close> of an array of floats: not finite as soon as one element is not.\<close>

definition np_sum :: "npfloat list \<Rightarrow> npfloat" where
  "np_sum xs = map_option sum_list (those xs)"

text \<open>
  \<^verbatim>\<open>round(x, n)\<close>: the value scaled by \<open>10 ^ n\<close> goes to the nearest integer and is scaled
  back. On a tie of the real value, \<open>up\<close> says whether the code goes to the upper neighbour.
  \<^verbatim>\<open>round(nan, n)\<close> is \<^verbatim>\<open>nan\<close>.
\<close>

definition rint :: "bool \<Rightarrow> real \<Rightarrow> int" where
  "rint up x = (let f = \<lfloor>x\<rfloor>; d = x - of_int f in
     if d < 1 / 2 then f else if 1 / 2 < d then f + 1 else if up then f + 1 else f)"

definition py_round :: "bool \<Rightarrow> npfloat \<Rightarrow> nat \<Rightarrow> npfloat" where
  "py_round up v n = map_option (\<lambda>x. of_int (rint up (x * 10 ^ n)) / 10 ^ n) v"

text \<open>Python indexing of a sequence: a negative index counts from the end.\<close>

definition getitem :: "'a list \<Rightarrow> int \<Rightarrow> error + 'a" where
  "getitem xs i =
     (if 0 \<le> i \<and> i < int (length xs) then Inr (xs ! nat i)
      else if i < 0 \<and> - int (length xs) \<le> i then Inr (xs ! nat (int (length xs) + i))
      else Inl IndexError)"

text \<open>The decimal numeral of \<^verbatim>\<open>f'R{i+1}'\<close>.\<close>

function string_of_nat :: "nat \<Rightarrow> string" where
  "string_of_nat n =
     (if n < 10 then [char_of (48 + n)]
      else string_of_nat (n div 10) @ [char_of (48 + n mod 10)])"
  by pat_completeness auto
termination
  by (relation "measure id") auto

subsection \<open>\<^verbatim>\<open>_combination\<close> (lines 139-145)\<close>

text \<open>
  The dtype of the array an argument comes from. \<^verbatim>\<open>math.factorial\<close> takes an \<^verbatim>\<open>int64\<close> value
  as an integer; for a \<^verbatim>\<open>float64\<close> value it raises \<^verbatim>\<open>TypeError\<close>, whatever the value, and for a
  negative integer \<^verbatim>\<open>ValueError\<close>.
\<close>

datatype dtype = int64 | float64

definition math_factorial :: "dtype \<Rightarrow> int \<Rightarrow> error + nat" where
  "math_factorial dt n =
     (if dt = float64 then Inl TypeError
      else if n < 0 then Inl ValueError
      else Inr (fact (nat n)))"

text \<open>The true division of two Python integers.\<close>

definition int_truediv :: "nat \<Rightarrow> nat \<Rightarrow> error + real" where
  "int_truediv a b = (if b = 0 then Inl ZeroDivisionError else Inr (real a / real b))"

text \<open>
  \<open>n\<close> is a count or a total of the replicate column, of the dtype \<open>dt\<close> of that column;
  \<open>r\<close> is the Python integer 2 of the call, and \<open>n - r\<close> has the dtype of \<open>n\<close>. The bare
  \<^verbatim>\<open>except\<close> turns every exception into the result 0.
\<close>

definition combination :: "dtype \<Rightarrow> int \<Rightarrow> int \<Rightarrow> real" where
  "combination dt n r =
     (if n < r \<or> n < 0 \<or> r < 0 then 0
      else
        (case math_factorial dt n of
           Inl e \<Rightarrow> 0
         | Inr a \<Rightarrow>
            (case math_factorial int64 r of
               Inl e \<Rightarrow> 0
             | Inr b \<Rightarrow>
                (case math_factorial dt (n - r) of
                   Inl e \<Rightarrow> 0
                 | Inr c \<Rightarrow>
                    (case int_truediv a (b * c) of Inl e \<Rightarrow> 0 | Inr q \<Rightarrow> q)))))"

subsection \<open>\<^verbatim>\<open>_calculate_tx\<close> (lines 147-163)\<close>

fun cumsum_from :: "int \<Rightarrow> int list \<Rightarrow> int list" where
  "cumsum_from acc [] = []"
| "cumsum_from acc (x # xs) = (acc + x) # cumsum_from (acc + x) xs"

definition cumsum :: "int list \<Rightarrow> int list" where
  "cumsum xs = cumsum_from 0 xs"

text \<open>
  The \<^verbatim>\<open>for i, cum_germ in enumerate(cumulative)\<close> loop, from index \<open>i\<close> on; when it runs
  out, \<^verbatim>\<open>days[-1]\<close> is returned. A day may be \<^verbatim>\<open>nan\<close>; the interpolation is then \<^verbatim>\<open>nan\<close>.
\<close>

function tx_loop :: "npfloat list \<Rightarrow> int list \<Rightarrow> real \<Rightarrow> nat \<Rightarrow> error + npfloat" where
  "tx_loop days cumulative target i =
     (if i < length cumulative then
        (if target \<le> real_of_int (cumulative ! i) then
           (if i = 0 then getitem days 0
            else
              (case getitem days (int i - 1) of
                 Inl e \<Rightarrow> Inl e
               | Inr x1 \<Rightarrow>
                  (case getitem days (int i) of
                     Inl e \<Rightarrow> Inl e
                   | Inr x2 \<Rightarrow>
                      (let y1 = cumulative ! (i - 1); y2 = cumulative ! i in
                       if y2 \<noteq> y1 then
                         Inr (do { a \<leftarrow> x1; b \<leftarrow> x2;
                                   q \<leftarrow> np_div ((target - real_of_int y1) * (b - a))
                                                (real_of_int (y2 - y1));
                                   Some (a + q) })
                       else Inr x1))))
         else tx_loop days cumulative target (i + 1))
      else getitem days (- 1))"
  by pat_completeness auto
termination
  by (relation "measure (\<lambda>(days, cumulative, target, i). length cumulative - i)") auto

definition calculate_tx :: "npfloat list \<Rightarrow> int list \<Rightarrow> int \<Rightarrow> real \<Rightarrow> error + npfloat" where
  "calculate_tx days rep_data total_germinated percentage =
     (if total_germinated = 0 then Inr (Some 0)
      else tx_loop days (cumsum rep_data) (real_of_int total_germinated * percentage) 0)"

subsection \<open>The statistics of one replicate (lines 102-120)\<close>

text \<open>
  One definition for each assignment of the branch \<^verbatim>\<open>total_germinated > 0\<close>, in the order of
  the source. \<open>days\<close> is the day axis, \<open>rep_data\<close> the replicate column after \<^verbatim>\<open>fillna(0)\<close> and
  \<open>dt\<close> its dtype. An operand is bound only where Python evaluates it. The mean time is not
  finite only when a day is \<^verbatim>\<open>nan\<close> (the total that divides is positive), and it is \<^verbatim>\<open>nan\<close>
  then, so that the comparison \<^verbatim>\<open>mgt > 0\<close> is false. A germinability that is not finite is
  \<^verbatim>\<open>inf\<close> (no seeds declared), for which \<^verbatim>\<open>germinability > 0\<close> holds and the arc sine is \<^verbatim>\<open>nan\<close>.
\<close>

definition germinability_of :: "int \<Rightarrow> int \<Rightarrow> npfloat" where
  "germinability_of total_seeds total_germinated =
     do { q \<leftarrow> np_div (real_of_int total_germinated) (real_of_int total_seeds); Some (q * 100) }"

definition mgt_of :: "npfloat list \<Rightarrow> int list \<Rightarrow> int \<Rightarrow> npfloat" where
  "mgt_of days rep_data total_germinated =
     do { s \<leftarrow> np_sum (map2 (\<lambda>d n. map_option (\<lambda>x. x * real_of_int n) d) days rep_data);
          np_div s (real_of_int total_germinated) }"

definition mgr_of :: "npfloat \<Rightarrow> npfloat" where
  "mgr_of mgt = (case mgt of None \<Rightarrow> Some 0 | Some m \<Rightarrow> if 0 < m then np_div 1 m else Some 0)"

definition variance_of :: "npfloat list \<Rightarrow> int list \<Rightarrow> int \<Rightarrow> npfloat \<Rightarrow> npfloat" where
  "variance_of days rep_data total_germinated mgt =
     (if 1 < total_germinated then
        do { m \<leftarrow> mgt;
             s \<leftarrow> np_sum (map2 (\<lambda>n d. map_option (\<lambda>x. real_of_int n * (x - m) ^ 2) d) rep_data days);
             np_div s (real_of_int (total_germinated - 1)) }
      else Some 0)"

definition std_dev_of :: "npfloat \<Rightarrow> npfloat" where
  "std_dev_of variance = do { v \<leftarrow> variance; np_sqrt v }"

definition cv_of :: "npfloat \<Rightarrow> npfloat \<Rightarrow> npfloat" where
  "cv_of std_dev mgt =
     (case mgt of
        None \<Rightarrow> Some 0
      | Some m \<Rightarrow>
          if 0 < m then do { s \<leftarrow> std_dev; q \<leftarrow> np_div s m; Some (q * 100) } else Some 0)"

text \<open>\<^verbatim>\<open>np.all(days > 0)\<close>: a comparison with \<^verbatim>\<open>nan\<close> is false.\<close>

definition all_days_positive :: "npfloat list \<Rightarrow> bool" where
  "all_days_positive days = list_all (\<lambda>d. case d of None \<Rightarrow> False | Some x \<Rightarrow> 0 < x) days"

definition speed_maguire_of :: "npfloat list \<Rightarrow> int list \<Rightarrow> npfloat" where
  "speed_maguire_of days rep_data =
     (if all_days_positive days
      then np_sum (map2 (\<lambda>n d. do { x \<leftarrow> d; np_div (real_of_int n) x }) rep_data days)
      else Some 0)"

definition uncertainty_of :: "int list \<Rightarrow> int \<Rightarrow> npfloat" where
  "uncertainty_of rep_data total_germinated =
     do { fs \<leftarrow> those (map (\<lambda>n. np_div (real_of_int n) (real_of_int total_germinated)) rep_data);
          let frequencies = filter (\<lambda>f. 0 < f) fs;
          if 0 < length frequencies then
            do { s \<leftarrow> np_sum (map (\<lambda>f. do { l \<leftarrow> np_log2 f; Some (f * l) }) frequencies);
                 Some (- s) }
          else Some 0 }"

definition synchrony_of :: "dtype \<Rightarrow> int list \<Rightarrow> int \<Rightarrow> npfloat" where
  "synchrony_of dt rep_data total_germinated =
     (let numerator = sum_list (map (\<lambda>ni. combination dt ni 2) (filter (\<lambda>ni. 2 \<le> ni) rep_data));
          denominator = combination dt total_germinated 2
      in if 0 < denominator then np_div numerator denominator else Some 0)"

text \<open>The local variables of the loop body after the \<^verbatim>\<open>if\<close>/\<^verbatim>\<open>else\<close>.\<close>

record stats =
  germinability :: npfloat
  mgt :: npfloat
  mgr :: npfloat
  variance :: npfloat
  std_dev :: npfloat
  cv :: npfloat
  speed_maguire :: npfloat
  uncertainty :: npfloat
  synchrony :: npfloat
  t50 :: npfloat

definition replicate_stats :: "int \<Rightarrow> npfloat list \<Rightarrow> dtype \<Rightarrow> int list \<Rightarrow> error + stats" where
  "replicate_stats total_seeds days dt rep_data =
     (let total_germinated = sum_list rep_data in
      if 0 < total_germinated then
        (let m = mgt_of days rep_data total_germinated;
             v = variance_of days rep_data total_germinated m;
             s = std_dev_of v
         in case calculate_tx days rep_data total_germinated (1 / 2) of
              Inl e \<Rightarrow> Inl e
            | Inr t \<Rightarrow>
                Inr \<lparr> germinability = germinability_of total_seeds total_germinated,
                      mgt = m, mgr = mgr_of m, variance = v, std_dev = s, cv = cv_of s m,
                      speed_maguire = speed_maguire_of days rep_data,
                      uncertainty = uncertainty_of rep_data total_germinated,
                      synchrony = synchrony_of dt rep_data total_germinated,
                      t50 = t \<rparr>)
      else
        Inr \<lparr> germinability = Some 0, mgt = Some 0, mgr = Some 0, variance = Some 0,
              std_dev = Some 0, cv = Some 0, speed_maguire = Some 0, uncertainty = Some 0,
              synchrony = Some 0, t50 = Some 0 \<rparr>)"

subsection \<open>The result row (lines 121-136)\<close>

record GerminationRecord =
  Replicate :: string
  Total_Seeds :: int
  Germinated_Seeds :: int
  G_Germinability :: npfloat
  MT_Mean_Germination_Time :: npfloat
  CVt_Coefficient_Variation :: npfloat
  MR_Mean_Germination_Rate :: npfloat
  U_Uncertainty_Index :: npfloat
  Z_Synchrony_Index :: npfloat
  Variance_Germination_Time :: npfloat
  Standard_Deviation :: npfloat
  Speed_Maguire_Index :: npfloat
  T50_Time_50 :: npfloat
  ArcSin_Transformation :: npfloat

definition arcsin_transformation :: "bool \<Rightarrow> npfloat \<Rightarrow> npfloat" where
  "arcsin_transformation up g =
     do { x \<leftarrow> g;
          if 0 < x then
            do { s \<leftarrow> np_sqrt (x / 100); a \<leftarrow> np_arcsin s; py_round up (Some (a * (180 / pi))) 2 }
          else Some 0 }"

text \<open>
  \<open>tie\<close> gives, for the key of a field, the direction of its \<^verbatim>\<open>round\<close> on a tie.
\<close>

definition result_row :: "(string \<Rightarrow> bool) \<Rightarrow> int \<Rightarrow> nat \<Rightarrow> int \<Rightarrow> stats \<Rightarrow> GerminationRecord" where
  "result_row tie total_seeds i total_germinated st =
     \<lparr> Replicate = ''R'' @ string_of_nat (i + 1),
       Total_Seeds = total_seeds,
       Germinated_Seeds = total_germinated,
       G_Germinability = py_round (tie ''G_Germinability_%'') (germinability st) 2,
       MT_Mean_Germination_Time = py_round (tie ''MT_Mean_Germination_Time'') (mgt st) 2,
       CVt_Coefficient_Variation = py_round (tie ''CVt_Coefficient_Variation_%'') (cv st) 2,
       MR_Mean_Germination_Rate = py_round (tie ''MR_Mean_Germination_Rate'') (mgr st) 4,
       U_Uncertainty_Index = py_round (tie ''U_Uncertainty_Index'') (uncertainty st) 3,
       Z_Synchrony_Index = py_round (tie ''Z_Synchrony_Index'') (synchrony st) 3,
       Variance_Germination_Time = py_round (tie ''Variance_Germination_Time'') (variance st) 2,
       Standard_Deviation = py_round (tie ''Standard_Deviation'') (std_dev st) 2,
       Speed_Maguire_Index = py_round (tie ''Speed_Maguire_Index'') (speed_maguire st) 2,
       T50_Time_50 = py_round (tie ''T50_Time_50%'') (t50 st) 2,
       ArcSin_Transformation =
         arcsin_transformation (tie ''ArcSin_Transformation'') (germinability st) \<rparr>"

definition replicate_record ::
  "(string \<Rightarrow> bool) \<Rightarrow> int \<Rightarrow> nat \<Rightarrow> npfloat list \<Rightarrow> dtype \<Rightarrow> int list \<Rightarrow> error + GerminationRecord" where
  "replicate_record tie total_seeds i days dt rep_data =
     (case replicate_stats total_seeds days dt rep_data of
        Inl e \<Rightarrow> Inl e
      | Inr st \<Rightarrow> Inr (result_row tie total_seeds i (sum_list rep_data) st))"

subsection \<open>\<^verbatim>\<open>calculate_all_germination_parameters\<close> (lines 87-137)\<close>

text \<open>
  A data frame: its columns from left to right, each a header and the cells of the rows; a
  blank cell is \<open>None\<close>. In a pandas frame all columns have the same number of rows
  (\<open>rectangular\<close>). The headers are strings; the loaders (\<^verbatim>\<open>read_excel\<close>, \<^verbatim>\<open>read_csv\<close>) make
  them distinct.
\<close>

type_synonym cell = "int option"

type_synonym DataFrame = "(string \<times> cell list) list"

definition columns :: "DataFrame \<Rightarrow> string list" where
  "columns df = map fst df"

definition rectangular :: "DataFrame \<Rightarrow> bool" where
  "rectangular df = list_all (\<lambda>c. length (snd c) = length (snd (hd df))) df"

text \<open>A frame as the loaders build it: the headers differ and the columns have one length.\<close>

definition data_frame :: "DataFrame \<Rightarrow> bool" where
  "data_frame df = (distinct (columns df) \<and> rectangular df)"

text \<open>The dtype of a column, \<^verbatim>\<open>fillna(v)\<close> on it, and its \<^verbatim>\<open>values\<close> as floats.\<close>

definition dtype_of :: "cell list \<Rightarrow> dtype" where
  "dtype_of cells = (if None \<in> set cells then float64 else int64)"

definition fillna :: "int \<Rightarrow> cell list \<Rightarrow> int list" where
  "fillna v cells = map (\<lambda>c. case c of None \<Rightarrow> v | Some x \<Rightarrow> x) cells"

definition values_of :: "cell list \<Rightarrow> npfloat list" where
  "values_of cells = map (map_option real_of_int) cells"

fun startswith :: "string \<Rightarrow> string \<Rightarrow> bool" where
  "startswith s [] = True"
| "startswith [] (p # ps) = False"
| "startswith (c # cs) (p # ps) = (c = p \<and> startswith cs ps)"

text \<open>\<^verbatim>\<open>p in s\<close> on strings.\<close>

fun contains :: "string \<Rightarrow> string \<Rightarrow> bool" where
  "contains [] p = (p = [])"
| "contains (c # cs) p = (startswith (c # cs) p \<or> contains cs p)"

definition rep_columns :: "DataFrame \<Rightarrow> string list" where
  "rep_columns df =
     (let rc = filter (\<lambda>col. startswith col ''R'' \<or> contains col ''Rep'') (columns df)
      in if rc = [] then drop 1 (columns df) else rc)"

text \<open>
  The day axis: the column \<^verbatim>\<open>Day\<close>, else \<^verbatim>\<open>ti\<close>, else the first column; \<^verbatim>\<open>iloc[:, 0]\<close>
  raises \<^verbatim>\<open>IndexError\<close> on a frame without columns.
\<close>

definition day_values :: "DataFrame \<Rightarrow> error + cell list" where
  "day_values df =
     (case map_of df ''Day'' of
        Some v \<Rightarrow> Inr v
      | None \<Rightarrow>
         (case map_of df ''ti'' of
            Some v \<Rightarrow> Inr v
          | None \<Rightarrow> (case df of [] \<Rightarrow> Inl IndexError | c # _ \<Rightarrow> Inr (snd c))))"

text \<open>
  The loop over \<^verbatim>\<open>enumerate(rep_columns)\<close>. A header that is no column of the frame is
  skipped (\<^verbatim>\<open>if rep_col in treatment_data.columns\<close>); an exception ends the loop. \<open>tie i\<close>
  gives the directions of the ties in the row of index \<open>i\<close>.
\<close>

fun replicate_loop ::
  "(nat \<Rightarrow> string \<Rightarrow> bool) \<Rightarrow> int \<Rightarrow> DataFrame \<Rightarrow> npfloat list \<Rightarrow> (nat \<times> string) list
     \<Rightarrow> error + GerminationRecord list" where
  "replicate_loop tie total_seeds df days [] = Inr []"
| "replicate_loop tie total_seeds df days ((i, rep_col) # rest) =
     (case map_of df rep_col of
        None \<Rightarrow> replicate_loop tie total_seeds df days rest
      | Some cells \<Rightarrow>
         (case replicate_record (tie i) total_seeds i days (dtype_of cells) (fillna 0 cells) of
            Inl e \<Rightarrow> Inl e
          | Inr r \<Rightarrow>
             (case replicate_loop tie total_seeds df days rest of
                Inl e \<Rightarrow> Inl e
              | Inr rs \<Rightarrow> Inr (r # rs))))"

definition calculate_all_germination_parameters ::
  "(nat \<Rightarrow> string \<Rightarrow> bool) \<Rightarrow> int \<Rightarrow> DataFrame \<Rightarrow> error + GerminationRecord list" where
  "calculate_all_germination_parameters tie total_seeds df =
     (case day_values df of
        Inl e \<Rightarrow> Inl e
      | Inr days \<Rightarrow>
          replicate_loop tie total_seeds df (values_of days) (enumerate 0 (rep_columns df)))"

text \<open>Every numeric field of a row is a finite float.\<close>

definition all_finite :: "GerminationRecord \<Rightarrow> bool" where
  "all_finite r =
     (G_Germinability r \<noteq> None \<and> MT_Mean_Germination_Time r \<noteq> None \<and>
      CVt_Coefficient_Variation r \<noteq> None \<and> MR_Mean_Germination_Rate r \<noteq> None \<and>
      U_Uncertainty_Index r \<noteq> None \<and> Z_Synchrony_Index r \<noteq> None \<and>
      Variance_Germination_Time r \<noteq> None \<and> Standard_Deviation r \<noteq> None \<and>
      Speed_Maguire_Index r \<noteq> None \<and> T50_Time_50 r \<noteq> None \<and>
      ArcSin_Transformation r \<noteq> None)"

subsection \<open>Concrete inputs\<close>

text \<open>The two constant choices of the directions of the ties.\<close>

definition ties_down :: "nat \<Rightarrow> string \<Rightarrow> bool" where
  "ties_down i key = False"

definition ties_up :: "nat \<Rightarrow> string \<Rightarrow> bool" where
  "ties_up i key = True"

text \<open>A column without a blank cell.\<close>

definition ints :: "int list \<Rightarrow> cell list" where
  "ints xs = map Some xs"

text \<open>Days 1 to 5, one replicate with the daily counts 0, 5, 10, 5, 5.\<close>

definition scenario :: DataFrame where
  "scenario = [(''Day'', ints [1, 2, 3, 4, 5]), (''R1'', ints [0, 5, 10, 5, 5])]"

text \<open>A replicate without any germination.\<close>

definition no_germination :: DataFrame where
  "no_germination = [(''Day'', ints [1, 2, 3]), (''R1'', ints [0, 0, 0]), (''R2'', ints [2, 0, 1])]"



text \<open>Seven replicate columns.\<close>

definition seven_replicates :: DataFrame where
  "seven_replicates =
     [(''Day'', ints [1, 2]), (''R1'', ints [2, 3]), (''R2'', ints [2, 3]), (''R3'', ints [2, 3]),
      (''R4'', ints [2, 3]), (''R5'', ints [2, 3]), (''R6'', ints [2, 3]), (''R7'', ints [2, 3])]"

text \<open>One germinated seed on day 1 (used with three seeds in the replicate).\<close>

definition one_seed :: DataFrame where
  "one_seed = [(''Day'', ints [1]), (''R1'', ints [1])]"

text \<open>Thirty germinated seeds counted (used with 25 seeds declared for the replicate).\<close>

definition over_count :: DataFrame where
  "over_count = [(''Day'', ints [1]), (''R1'', ints [30])]"

text \<open>
  All ten germinations on day 2: once with the other two cells blank, once with zeros in
  them.
\<close>

definition single_day_blank :: DataFrame where
  "single_day_blank = [(''Day'', ints [1, 2, 3]), (''R1'', [None, Some 10, None])]"

definition single_day_zeros :: DataFrame where
  "single_day_zeros = [(''Day'', ints [1, 2, 3]), (''R1'', ints [0, 10, 0])]"

section \<open>Properties\<close>

subsection \<open>Indexing and the interpolation loop\<close>

text \<open>Both recursions are unfolded by hand.\<close>

declare tx_loop.simps [simp del]

declare string_of_nat.simps [simp del]

lemma getitem_nth: "i < length xs \<Longrightarrow> getitem xs (int i) = Inr (xs ! i)"
  by (simp add: getitem_def)

lemma getitem_pred: "0 < i \<Longrightarrow> i \<le> length xs \<Longrightarrow> getitem xs (int i - 1) = Inr (xs ! (i - 1))"
  using getitem_nth [of "i - 1" xs] by (simp add: of_nat_diff)

lemma getitem_last: "xs \<noteq> [] \<Longrightarrow> getitem xs (- 1) = Inr (last xs)"
proof -
  assume ne: "xs \<noteq> []"
  then have "nat (int (length xs) + - 1) = length xs - 1" by (cases xs) auto
  moreover have "- int (length xs) \<le> - 1" using ne by (cases xs) auto
  ultimately show ?thesis using ne by (simp add: getitem_def last_conv_nth)
qed

lemma length_cumsum_from: "length (cumsum_from a xs) = length xs"
  by (induction xs arbitrary: a) auto

lemma length_cumsum: "length (cumsum xs) = length xs"
  by (simp add: cumsum_def length_cumsum_from)

lemma tx_loop_returns:
  assumes "length days = length cum" "cum \<noteq> []"
  shows "\<exists>r. tx_loop days cum target i = Inr r"
  using assms
proof (induction days cum target i rule: tx_loop.induct)
  case (1 days cumulative target i)
  show ?case
  proof (cases "i < length cumulative")
    case False
    from 1 have "days \<noteq> []" by auto
    with False show ?thesis
      by (subst tx_loop.simps) (simp add: getitem_last)
  next
    case lt: True
    show ?thesis
    proof (cases "target \<le> real_of_int (cumulative ! i)")
      case False
      with lt 1 show ?thesis
        by (subst tx_loop.simps) simp
    next
      case True
      show ?thesis
      proof (cases "i = 0")
        case True
        with lt \<open>target \<le> _\<close> 1 show ?thesis
          using getitem_nth [of 0 days]
          by (subst tx_loop.simps) simp
      next
        case False
        have a: "getitem days (int i - 1) = Inr (days ! (i - 1))"
          using 1(2) lt False getitem_pred [of i days] by simp
        have b: "getitem days (int i) = Inr (days ! i)"
          using 1(2) lt getitem_nth [of i days] by simp
        from lt \<open>target \<le> _\<close> False show ?thesis
          by (subst tx_loop.simps) (simp add: a b Let_def)
      qed
    qed
  qed
qed

lemma interp_bounds:
  fixes x1 x2 t y1 y2 :: real
  assumes "x1 \<le> x2" "y1 < t" "t \<le> y2"
  shows "x1 \<le> x1 + (t - y1) * (x2 - x1) / (y2 - y1)" "x1 + (t - y1) * (x2 - x1) / (y2 - y1) \<le> x2"
proof -
  have d: "0 < y2 - y1" using assms by simp
  have "0 \<le> (t - y1) * (x2 - x1)" using assms by simp
  then show "x1 \<le> x1 + (t - y1) * (x2 - x1) / (y2 - y1)" using d by simp
  have "(t - y1) * (x2 - x1) \<le> (y2 - y1) * (x2 - x1)"
    using assms by (intro mult_right_mono) simp_all
  then have "(t - y1) * (x2 - x1) / (y2 - y1) \<le> x2 - x1"
    using d by (simp add: pos_divide_le_eq mult.commute)
  then show "x1 + (t - y1) * (x2 - x1) / (y2 - y1) \<le> x2" by simp
qed

lemma interp_mono:
  fixes x1 x2 t1 t2 y1 y2 :: real
  assumes "x1 \<le> x2" "y1 < t1" "t1 \<le> t2" "t2 \<le> y2"
  shows "x1 + (t1 - y1) * (x2 - x1) / (y2 - y1) \<le> x1 + (t2 - y1) * (x2 - x1) / (y2 - y1)"
proof -
  have d: "0 < y2 - y1" using assms by simp
  have "(t1 - y1) * (x2 - x1) \<le> (t2 - y1) * (x2 - x1)"
    using assms by (intro mult_right_mono) simp_all
  then show ?thesis using d by (simp add: divide_right_mono)
qed

text \<open>What the loop returns when it stops at index i.\<close>

lemma tx_loop_stop:
  assumes "i < length cum" "length days = length cum" "target \<le> real_of_int (cum ! i)"
  shows "tx_loop (map Some days) cum target i =
     (if i = 0 then Inr (Some (days ! 0))
      else if cum ! i \<noteq> cum ! (i - 1) then
        Inr (Some (days ! (i - 1) + (target - real_of_int (cum ! (i - 1))) * (days ! i - days ! (i - 1))
             / (real_of_int (cum ! i) - real_of_int (cum ! (i - 1)))))
      else Inr (Some (days ! (i - 1))))"
proof (cases "i = 0")
  case True
  have "getitem (map Some days) 0 = Inr (Some (days ! 0))"
    using assms True getitem_nth [of 0 "map Some days"] by simp
  with assms True show ?thesis
    by (subst tx_loop.simps) simp
next
  case False
  have a: "getitem (map Some days) (int i - 1) = Inr (Some (days ! (i - 1)))"
    using assms False getitem_pred [of i "map Some days"] by simp
  have b: "getitem (map Some days) (int i) = Inr (Some (days ! i))"
    using assms getitem_nth [of i "map Some days"] by simp
  show ?thesis
    using assms False
    by (subst tx_loop.simps) (simp add: a b Let_def np_div_def)
qed

lemma tx_loop_continue:
  assumes "i < length cum" "\<not> target \<le> real_of_int (cum ! i)"
  shows "tx_loop days cum target i = tx_loop days cum target (i + 1)"
  using assms by (subst tx_loop.simps) simp

lemma tx_loop_end:
  assumes "\<not> i < length cum" "days \<noteq> []"
  shows "tx_loop (map Some days) cum target i = Inr (Some (last days))"
  using assms by (subst tx_loop.simps) (simp add: getitem_last last_map)

lemma sorted_nth_le_last: "sorted (xs :: real list) \<Longrightarrow> i < length xs \<Longrightarrow> xs ! i \<le> last xs"
proof -
  assume s: "sorted xs" and i: "i < length xs"
  then have "xs \<noteq> []" by auto
  then have l: "last xs = xs ! (length xs - 1)" by (rule last_conv_nth)
  have "i \<le> length xs - 1" using i by simp
  moreover have "length xs - 1 < length xs" using i by simp
  ultimately have "xs ! i \<le> xs ! (length xs - 1)"
    using s by (simp only: sorted_iff_nth_mono)
  with l show ?thesis by simp
qed

lemma sorted_nth_pred_le: "sorted (xs :: real list) \<Longrightarrow> i < length xs \<Longrightarrow> xs ! (i - 1) \<le> xs ! i"
proof -
  assume s: "sorted xs" and i: "i < length xs"
  have "i - 1 \<le> i" by simp
  with i show ?thesis using s by (simp only: sorted_iff_nth_mono)
qed

lemma tx_loop_bounds:
  assumes "sorted days" "length days = length cum" "cum \<noteq> []" "i \<le> length cum"
    and "\<forall>j<i. real_of_int (cum ! j) < target"
  shows "\<exists>r. tx_loop (map Some days) cum target i = Inr (Some r) \<and> days ! (i - 1) \<le> r \<and> r \<le> last days"
  using assms
proof (induction "length cum - i" arbitrary: i)
  case 0
  then have e: "i = length cum" by simp
  from 0 have ne: "days \<noteq> []" by auto
  have "days ! (i - 1) \<le> last days"
    using 0 e by (intro sorted_nth_le_last) auto
  with e ne show ?case by (simp add: tx_loop_end)
next
  case (Suc k)
  then have lt: "i < length cum" by simp
  show ?case
  proof (cases "target \<le> real_of_int (cum ! i)")
    case False
    then have inv: "\<forall>j<i + 1. real_of_int (cum ! j) < target"
      using Suc.prems(5) by (auto simp: less_Suc_eq)
    have "k = length cum - (i + 1)" using Suc.hyps(2) by simp
    from Suc.hyps(1) [OF this Suc.prems(1-3) _ inv] lt
    obtain r where r: "tx_loop (map Some days) cum target (i + 1) = Inr (Some r)" "days ! i \<le> r" "r \<le> last days"
      by auto
    have "days ! (i - 1) \<le> days ! i"
      using Suc.prems(1,2) lt by (intro sorted_nth_pred_le) auto
    with r False lt show ?thesis by (simp add: tx_loop_continue)
  next
    case True
    show ?thesis
    proof (cases "i = 0")
      case True
      have "days ! 0 \<le> last days"
        using Suc.prems lt by (intro sorted_nth_le_last) auto
      with True \<open>target \<le> real_of_int (cum ! i)\<close> lt Suc.prems(2) show ?thesis
        by (simp add: tx_loop_stop)
    next
      case False
      then have y1: "real_of_int (cum ! (i - 1)) < target" using Suc.prems(5) by simp
      have x: "days ! (i - 1) \<le> days ! i"
        using Suc.prems(1,2) lt by (intro sorted_nth_pred_le) auto
      have l: "days ! i \<le> last days"
        using Suc.prems lt by (intro sorted_nth_le_last) auto
      have ne: "cum ! i \<noteq> cum ! (i - 1)" using y1 True by auto
      note b = interp_bounds [OF x y1 True]
      show ?thesis
        using False ne b l lt Suc.prems(2) True
        by (simp add: tx_loop_stop)
    qed
  qed
qed

lemma tx_loop_stop_le:
  assumes "sorted days" "length days = length cum" "i < length cum"
    and "\<forall>j<i. real_of_int (cum ! j) < target" "target \<le> real_of_int (cum ! i)"
  shows "\<exists>r. tx_loop (map Some days) cum target i = Inr (Some r) \<and> r \<le> days ! i"
proof (cases "i = 0")
  case True
  with assms show ?thesis by (simp add: tx_loop_stop)
next
  case False
  then have y1: "real_of_int (cum ! (i - 1)) < target" using assms(4) by simp
  have x: "days ! (i - 1) \<le> days ! i"
    using assms by (intro sorted_nth_pred_le) auto
  have ne: "cum ! i \<noteq> cum ! (i - 1)" using y1 assms(5) by auto
  note b = interp_bounds [OF x y1 assms(5)]
  show ?thesis using False ne b assms by (simp add: tx_loop_stop)
qed

lemma tx_loop_mono:
  assumes "sorted days" "length days = length cum" "cum \<noteq> []" "i \<le> length cum"
    and "t1 \<le> t2" "\<forall>j<i. real_of_int (cum ! j) < t1"
  shows "\<exists>r1 r2. tx_loop (map Some days) cum t1 i = Inr (Some r1) \<and> tx_loop (map Some days) cum t2 i = Inr (Some r2) \<and> r1 \<le> r2"
  using assms
proof (induction "length cum - i" arbitrary: i)
  case 0
  then have e: "i = length cum" by simp
  from 0 have ne: "days \<noteq> []" by auto
  with e show ?case by (simp add: tx_loop_end)
next
  case (Suc k)
  then have lt: "i < length cum" by simp
  have inv2: "\<forall>j<i. real_of_int (cum ! j) < t2" using Suc.prems(5,6) by fastforce
  show ?case
  proof (cases "t1 \<le> real_of_int (cum ! i)")
    case False
    then have inv: "\<forall>j<i + 1. real_of_int (cum ! j) < t1"
      using Suc.prems(6) by (auto simp: less_Suc_eq)
    have n2: "\<not> t2 \<le> real_of_int (cum ! i)" using False Suc.prems(5) by simp
    have "k = length cum - (i + 1)" using Suc.hyps(2) by simp
    from Suc.hyps(1) [OF this Suc.prems(1-3) _ Suc.prems(5) inv] lt
    show ?thesis using False n2 lt by (simp add: tx_loop_continue)
  next
    case s1: True
    from tx_loop_stop_le [OF Suc.prems(1,2) lt Suc.prems(6) s1]
    obtain r1 where r1: "tx_loop (map Some days) cum t1 i = Inr (Some r1)" "r1 \<le> days ! i" by auto
    show ?thesis
    proof (cases "t2 \<le> real_of_int (cum ! i)")
      case False
      then have inv: "\<forall>j<i + 1. real_of_int (cum ! j) < t2"
        using inv2 by (auto simp: less_Suc_eq)
      from tx_loop_bounds [OF Suc.prems(1-3) _ inv] lt
      obtain r2 where "tx_loop (map Some days) cum t2 (i + 1) = Inr (Some r2)" "days ! i \<le> r2" by auto
      with r1 False lt show ?thesis by (simp add: tx_loop_continue)
    next
      case s2: True
      show ?thesis
      proof (cases "i = 0")
        case True
        with s1 s2 lt Suc.prems(2) show ?thesis by (simp add: tx_loop_stop)
      next
        case False
        then have y1: "real_of_int (cum ! (i - 1)) < t1" using Suc.prems(6) by simp
        have x: "days ! (i - 1) \<le> days ! i"
          using Suc.prems(1,2) lt by (intro sorted_nth_pred_le) auto
        have ne: "cum ! i \<noteq> cum ! (i - 1)" using y1 s1 by auto
        note m = interp_mono [OF x y1 Suc.prems(5) s2]
        show ?thesis using False ne m s1 s2 lt Suc.prems(2) by (simp add: tx_loop_stop)
      qed
    qed
  qed
qed

subsection \<open>Every replicate column gives a row\<close>

lemma cumsum_from_Nil_iff: "cumsum_from a xs = [] \<longleftrightarrow> xs = []"
  by (cases xs) auto

lemma calculate_tx_returns:
  assumes "length days = length rep_data"
  shows "\<exists>r. calculate_tx days rep_data (sum_list rep_data) p = Inr r"
proof (cases "sum_list rep_data = 0")
  case True
  then show ?thesis by (simp add: calculate_tx_def)
next
  case False
  then have "cumsum rep_data \<noteq> []"
    by (auto simp: cumsum_def cumsum_from_Nil_iff)
  moreover have "length days = length (cumsum rep_data)"
    using assms by (simp add: length_cumsum)
  ultimately obtain r where
    "tx_loop days (cumsum rep_data) (real_of_int (sum_list rep_data) * p) 0 = Inr r"
    using tx_loop_returns by blast
  with False show ?thesis by (simp add: calculate_tx_def)
qed

lemma replicate_stats_returns:
  assumes "length days = length rep_data"
  shows "\<exists>st. replicate_stats total_seeds days dt rep_data = Inr st"
proof -
  obtain r where "calculate_tx days rep_data (sum_list rep_data) (1 / 2) = Inr r"
    using calculate_tx_returns [OF assms] by blast
  then show ?thesis by (simp add: replicate_stats_def Let_def)
qed

lemma replicate_record_returns:
  assumes "length days = length rep_data"
  shows "\<exists>st. replicate_stats total_seeds days dt rep_data = Inr st \<and>
     replicate_record tie total_seeds i days dt rep_data
       = Inr (result_row tie total_seeds i (sum_list rep_data) st)"
proof -
  obtain st where "replicate_stats total_seeds days dt rep_data = Inr st"
    using replicate_stats_returns [OF assms] by blast
  then show ?thesis by (simp add: replicate_record_def)
qed

lemma length_fillna: "length (fillna v cells) = length cells"
  by (simp add: fillna_def)

lemma length_values_of: "length (values_of cells) = length cells"
  by (simp add: values_of_def)

lemma replicate_loop_rows:
  assumes "list_all (\<lambda>ic. \<exists>cells. map_of df (snd ic) = Some cells \<and> length cells = length days) ics"
  shows "\<exists>rs. replicate_loop tie total_seeds df days ics = Inr rs \<and> length rs = length ics \<and>
     (\<forall>k<length ics. \<exists>cells. map_of df (snd (ics ! k)) = Some cells \<and> length cells = length days \<and>
        replicate_record (tie (fst (ics ! k))) total_seeds (fst (ics ! k)) days
          (dtype_of cells) (fillna 0 cells) = Inr (rs ! k))"
  using assms
proof (induction ics)
  case Nil
  then show ?case by simp
next
  case (Cons ic ics)
  obtain i c where ic: "ic = (i, c)" by (cases ic)
  from Cons.prems ic obtain cells where cells: "map_of df c = Some cells" "length cells = length days"
    by auto
  have "length days = length (fillna 0 cells)" using cells(2) by (simp add: length_fillna)
  from replicate_record_returns [OF this]
  obtain r where r: "replicate_record (tie i) total_seeds i days (dtype_of cells) (fillna 0 cells) = Inr r"
    by blast
  from Cons obtain rs where rs: "replicate_loop tie total_seeds df days ics = Inr rs"
    "length rs = length ics"
    "\<forall>k<length ics. \<exists>cells. map_of df (snd (ics ! k)) = Some cells \<and> length cells = length days \<and>
        replicate_record (tie (fst (ics ! k))) total_seeds (fst (ics ! k)) days
          (dtype_of cells) (fillna 0 cells) = Inr (rs ! k)"
    by auto
  have "replicate_loop tie total_seeds df days (ic # ics) = Inr (r # rs)"
    using ic cells r rs(1) by simp
  moreover have "\<forall>k<length (ic # ics). \<exists>cells. map_of df (snd ((ic # ics) ! k)) = Some cells \<and>
        length cells = length days \<and>
        replicate_record (tie (fst ((ic # ics) ! k))) total_seeds (fst ((ic # ics) ! k)) days
          (dtype_of cells) (fillna 0 cells) = Inr ((r # rs) ! k)"
  proof (intro allI impI)
    fix k assume "k < length (ic # ics)"
    then show "\<exists>cells. map_of df (snd ((ic # ics) ! k)) = Some cells \<and> length cells = length days \<and>
        replicate_record (tie (fst ((ic # ics) ! k))) total_seeds (fst ((ic # ics) ! k)) days
          (dtype_of cells) (fillna 0 cells) = Inr ((r # rs) ! k)"
      using ic cells r rs(3) by (cases k) auto
  qed
  ultimately show ?case using rs(2) by simp
qed

lemma rep_columns_subset: "set (rep_columns df) \<subseteq> set (columns df)"
  by (auto simp: rep_columns_def Let_def dest: in_set_dropD)

lemma map_of_column:
  assumes "c \<in> set (columns df)"
  shows "\<exists>rep. map_of df c = Some rep \<and> (c, rep) \<in> set df"
proof -
  from assms have "map_of df c \<noteq> None"
    by (simp add: columns_def map_of_eq_None_iff)
  then obtain rep where "map_of df c = Some rep" by blast
  then show ?thesis by (blast dest: map_of_SomeD)
qed

lemma rectangular_length:
  assumes "rectangular df" "(c, xs) \<in> set df" "(d, ys) \<in> set df"
  shows "length xs = length ys"
proof -
  from assms have a: "\<forall>col\<in>set df. length (snd col) = length (snd (hd df))"
    by (simp add: rectangular_def list_all_iff)
  from a assms(2) have "length (snd (c, xs)) = length (snd (hd df))" by (rule bspec)
  moreover from a assms(3) have "length (snd (d, ys)) = length (snd (hd df))" by (rule bspec)
  ultimately show ?thesis by simp
qed

lemma day_values_column:
  assumes "df \<noteq> []"
  shows "\<exists>h days. day_values df = Inr days \<and> (h, days) \<in> set df"
proof (cases "map_of df ''Day''")
  case (Some v)
  then show ?thesis by (auto simp: day_values_def dest: map_of_SomeD)
next
  case None
  show ?thesis
  proof (cases "map_of df ''ti''")
    case (Some v)
    with None show ?thesis by (auto simp: day_values_def dest: map_of_SomeD)
  next
    case n2: None
    from assms obtain h v rest where "df = (h, v) # rest" by (cases df) auto
    with None n2 show ?thesis by (auto simp: day_values_def)
  qed
qed

lemma calculate_all_rows:
  assumes "rectangular df" "df \<noteq> []"
  shows "\<exists>days rs. day_values df = Inr days \<and>
     calculate_all_germination_parameters tie total_seeds df = Inr rs \<and>
     length rs = length (rep_columns df) \<and>
     (\<forall>k<length rs. \<exists>cells. map_of df (rep_columns df ! k) = Some cells \<and>
        length cells = length days \<and>
        replicate_record (tie k) total_seeds k (values_of days) (dtype_of cells) (fillna 0 cells)
          = Inr (rs ! k))"
proof -
  obtain h days where d: "day_values df = Inr days" "(h, days) \<in> set df"
    using day_values_column [OF assms(2)] by blast
  let ?ics = "enumerate 0 (rep_columns df)"
  have "list_all (\<lambda>ic. \<exists>cells. map_of df (snd ic) = Some cells \<and>
            length cells = length (values_of days)) ?ics"
  proof (unfold list_all_iff, intro ballI)
    fix ic assume "ic \<in> set ?ics"
    then have "fst ic < length (rep_columns df)" "rep_columns df ! fst ic = snd ic"
      by (simp_all add: in_set_enumerate_eq)
    then have "snd ic \<in> set (rep_columns df)" using nth_mem by metis
    then have "snd ic \<in> set (columns df)" using rep_columns_subset by blast
    then obtain cells where cells: "map_of df (snd ic) = Some cells" "(snd ic, cells) \<in> set df"
      using map_of_column by blast
    have "length cells = length days"
      using rectangular_length [OF assms(1) cells(2) d(2)] .
    with cells show "\<exists>cells. map_of df (snd ic) = Some cells \<and> length cells = length (values_of days)"
      by (simp add: length_values_of)
  qed
  from replicate_loop_rows [OF this, of tie total_seeds]
  obtain rs where rs: "replicate_loop tie total_seeds df (values_of days) ?ics = Inr rs"
    "length rs = length ?ics"
    "\<forall>k<length ?ics. \<exists>cells. map_of df (snd (?ics ! k)) = Some cells \<and>
        length cells = length (values_of days) \<and>
        replicate_record (tie (fst (?ics ! k))) total_seeds (fst (?ics ! k)) (values_of days)
          (dtype_of cells) (fillna 0 cells) = Inr (rs ! k)"
    by blast
  have "\<forall>k<length rs. \<exists>cells. map_of df (rep_columns df ! k) = Some cells \<and>
        length cells = length days \<and>
        replicate_record (tie k) total_seeds k (values_of days) (dtype_of cells) (fillna 0 cells)
          = Inr (rs ! k)"
  proof (intro allI impI)
    fix k assume k: "k < length rs"
    then have "k < length ?ics" using rs(2) by simp
    with rs(3) obtain cells where "map_of df (snd (?ics ! k)) = Some cells"
        "length cells = length (values_of days)"
        "replicate_record (tie (fst (?ics ! k))) total_seeds (fst (?ics ! k)) (values_of days)
          (dtype_of cells) (fillna 0 cells) = Inr (rs ! k)"
      by blast
    moreover have "?ics ! k = (k, rep_columns df ! k)"
      using k rs(2) by (simp add: nth_enumerate_eq)
    ultimately show "\<exists>cells. map_of df (rep_columns df ! k) = Some cells \<and>
        length cells = length days \<and>
        replicate_record (tie k) total_seeds k (values_of days) (dtype_of cells) (fillna 0 cells)
          = Inr (rs ! k)"
      by (simp add: length_values_of)
  qed
  with d(1) rs(1,2) show ?thesis
    by (simp add: calculate_all_germination_parameters_def)
qed

text \<open>A column without a blank cell.\<close>

lemma values_of_ints: "values_of (ints xs) = map Some (map real_of_int xs)"
  by (simp add: values_of_def ints_def)

lemma fillna_ints: "fillna v (ints xs) = xs"
  by (simp add: fillna_def ints_def comp_def)

lemma dtype_of_ints: "dtype_of (ints xs) = int64"
  by (auto simp: dtype_of_def ints_def)

lemma length_ints: "length (ints xs) = length xs"
  by (simp add: ints_def)

subsection \<open>Time to a percentage\<close>

text \<open>
  C10. For a replicate series with ascending days and a positive total, \<^verbatim>\<open>_calculate_tx\<close>
  returns, for any percentage, a finite day that is not before the first day of the series and
  not after the last one.
\<close>

theorem calculate_tx_within_window:
  assumes "sorted days" and "length days = length rep_data" and "0 < sum_list rep_data"
  shows "\<exists>r. calculate_tx (map Some days) rep_data (sum_list rep_data) percentage = Inr (Some r) \<and>
           hd days \<le> r \<and> r \<le> last days"
proof -
  let ?cum = "cumsum rep_data"
  let ?target = "real_of_int (sum_list rep_data) * percentage"
  from assms(3) have ne: "rep_data \<noteq> []" by auto
  then have c: "?cum \<noteq> []" by (simp add: cumsum_def cumsum_from_Nil_iff)
  have l: "length days = length ?cum" using assms(2) by (simp add: length_cumsum)
  from tx_loop_bounds [OF assms(1) l c, of 0 ?target]
  obtain r where r: "tx_loop (map Some days) ?cum ?target 0 = Inr (Some r)" "days ! 0 \<le> r" "r \<le> last days"
    by auto
  have "days \<noteq> []" using ne assms(2) by auto
  then have "hd days = days ! 0" by (simp add: hd_conv_nth)
  with r assms(3) show ?thesis by (simp add: calculate_tx_def)
qed

theorem calculate_tx_within_window_witness:
  "sorted [1, 2, 3, 4, 5 :: real] \<and> length [1, 2, 3, 4, 5 :: real] = length [0, 5, 10, 5, 5 :: int] \<and>
   0 < sum_list [0, 5, 10, 5, 5 :: int] \<and>
   (\<exists>r. calculate_tx (map Some [1, 2, 3, 4, 5]) [0, 5, 10, 5, 5] (sum_list [0, 5, 10, 5, 5]) (9 / 10) = Inr (Some r) \<and>
        hd [1, 2, 3, 4, 5] \<le> r \<and> r \<le> last [1, 2, 3, 4, 5])"
  using calculate_tx_within_window [of "[1, 2, 3, 4, 5]" "[0, 5, 10, 5, 5]" "9 / 10"]
  by simp

text \<open>
  C5. For a replicate series with ascending days and a positive total, \<^verbatim>\<open>_calculate_tx\<close>
  is monotone in the percentage: it returns for both of two percentages \<open>p1 \<le> p2\<close>, and
  the day for \<open>p2\<close> is not before the day for \<open>p1\<close>.
\<close>

theorem calculate_tx_monotone:
  assumes "sorted days" and "length days = length rep_data" and "0 < sum_list rep_data"
    and "p1 \<le> p2"
  shows "\<exists>r1 r2. calculate_tx (map Some days) rep_data (sum_list rep_data) p1 = Inr (Some r1) \<and>
           calculate_tx (map Some days) rep_data (sum_list rep_data) p2 = Inr (Some r2) \<and> r1 \<le> r2"
proof -
  let ?cum = "cumsum rep_data"
  let ?total = "real_of_int (sum_list rep_data)"
  from assms(3) have ne: "rep_data \<noteq> []" by auto
  then have c: "?cum \<noteq> []" by (simp add: cumsum_def cumsum_from_Nil_iff)
  have l: "length days = length ?cum" using assms(2) by (simp add: length_cumsum)
  have t: "?total * p1 \<le> ?total * p2"
    using assms(3,4) by (simp add: mult_left_mono)
  from tx_loop_mono [OF assms(1) l c _ t, of 0]
  obtain r1 r2 where "tx_loop (map Some days) ?cum (?total * p1) 0 = Inr (Some r1)"
      "tx_loop (map Some days) ?cum (?total * p2) 0 = Inr (Some r2)" "r1 \<le> r2"
    by auto
  with assms(3) show ?thesis by (simp add: calculate_tx_def)
qed

theorem calculate_tx_monotone_witness:
  "sorted [1, 2, 3, 4, 5 :: real] \<and> length [1, 2, 3, 4, 5 :: real] = length [0, 5, 10, 5, 5 :: int] \<and>
   0 < sum_list [0, 5, 10, 5, 5 :: int] \<and> (3 / 10 :: real) \<le> 7 / 10 \<and>
   (\<exists>r1 r2. calculate_tx (map Some [1, 2, 3, 4, 5]) [0, 5, 10, 5, 5] (sum_list [0, 5, 10, 5, 5]) (3 / 10) = Inr (Some r1) \<and>
      calculate_tx (map Some [1, 2, 3, 4, 5]) [0, 5, 10, 5, 5] (sum_list [0, 5, 10, 5, 5]) (7 / 10) = Inr (Some r2) \<and>
      r1 \<le> r2)"
  using calculate_tx_monotone [of "[1, 2, 3, 4, 5]" "[0, 5, 10, 5, 5]" "3 / 10" "7 / 10"]
  by simp

lemma scenario_tx:
  "calculate_tx (map Some [1, 2, 3, 4, 5]) [0, 5, 10, 5, 5] 25 (1 / 2) = Inr (Some (11 / 4))"
  by code_simp

text \<open>
  C4. Days 1 to 5 with the counts 0, 5, 10, 5, 5 and 25 seeds: the total is 25, the cumulative
  sums are 0, 5, 15, 20, 25, the target 12.5 is reached between day 2 and day 3, where the
  interpolation gives 2.75, and the row of the replicate has 25 germinated seeds, a
  germinability of 100 and a T50 of 2.75.
\<close>

theorem scenario_t50:
  "sum_list [0, 5, 10, 5, 5 :: int] = 25 \<and>
   cumsum [0, 5, 10, 5, 5] = [0, 5, 15, 20, 25] \<and>
   calculate_tx (map Some [1, 2, 3, 4, 5]) [0, 5, 10, 5, 5] 25 (1 / 2)
     = Inr (Some (2 + (25 / 2 - 5) * (3 - 2) / (15 - 5))) \<and>
   (2 + (25 / 2 - 5) * (3 - 2) / (15 - 5) :: real) = 275 / 100 \<and>
   (\<exists>r. calculate_all_germination_parameters tie 25 scenario = Inr [r] \<and>
        Germinated_Seeds r = 25 \<and> G_Germinability r = Some 100 \<and> T50_Time_50 r = Some (275 / 100))"
proof -
  have "\<exists>r. calculate_all_germination_parameters tie 25 scenario = Inr [r] \<and>
        Germinated_Seeds r = 25 \<and> G_Germinability r = Some 100 \<and> T50_Time_50 r = Some (275 / 100)"
    using scenario_tx
    by (simp add: scenario_def calculate_all_germination_parameters_def day_values_def
        rep_columns_def columns_def enumerate_eq_zip replicate_record_def replicate_stats_def
        values_of_ints fillna_ints dtype_of_ints
        result_row_def Let_def germinability_of_def np_div_def py_round_def rint_def)
  moreover have "cumsum [0, 5, 10, 5, 5] = [0, 5, 15, 20, 25]"
    by (simp add: cumsum_def)
  ultimately show ?thesis using scenario_tx by simp
qed

subsection \<open>The rows of the result\<close>

lemma rint_0: "rint up 0 = 0"
  by (simp add: rint_def)

lemma py_round_0: "py_round up (Some 0) n = Some 0"
  by (simp add: py_round_def rint_0)

lemma replicate_stats_zero:
  assumes "sum_list rep_data \<le> 0"
  shows "replicate_stats total_seeds days dt rep_data =
     Inr \<lparr> germinability = Some 0, mgt = Some 0, mgr = Some 0, variance = Some 0,
           std_dev = Some 0, cv = Some 0, speed_maguire = Some 0, uncertainty = Some 0,
           synchrony = Some 0, t50 = Some 0 \<rparr>"
  using assms by (simp add: replicate_stats_def)

lemma replicate_record_zero:
  assumes "sum_list rep_data = 0"
  shows "replicate_record tie total_seeds i days dt rep_data =
     Inr \<lparr> Replicate = ''R'' @ string_of_nat (i + 1), Total_Seeds = total_seeds,
           Germinated_Seeds = 0, G_Germinability = Some 0, MT_Mean_Germination_Time = Some 0,
           CVt_Coefficient_Variation = Some 0, MR_Mean_Germination_Rate = Some 0,
           U_Uncertainty_Index = Some 0, Z_Synchrony_Index = Some 0,
           Variance_Germination_Time = Some 0, Standard_Deviation = Some 0,
           Speed_Maguire_Index = Some 0, T50_Time_50 = Some 0, ArcSin_Transformation = Some 0 \<rparr>"
  using assms
  by (simp add: replicate_record_def replicate_stats_zero result_row_def py_round_0
      arcsin_transformation_def)

text \<open>
  C1. For a replicate column whose daily counts sum to zero the engine returns, and the row of
  that replicate has every derived statistic equal to 0 and finite: germinability, mean
  germination time, coefficient of variation, mean rate, uncertainty, synchrony, variance,
  standard deviation, speed index, T50 and the arc sine transform.
\<close>

theorem zero_total_row:
  assumes "data_frame df" and "df \<noteq> []" and "k < length (rep_columns df)"
    and "map_of df (rep_columns df ! k) = Some cells" and "sum_list (fillna 0 cells) = 0"
  shows "\<exists>rs. calculate_all_germination_parameters tie total_seeds df = Inr rs \<and>
     length rs = length (rep_columns df) \<and>
     rs ! k =
       \<lparr> Replicate = ''R'' @ string_of_nat (k + 1), Total_Seeds = total_seeds,
         Germinated_Seeds = 0, G_Germinability = Some 0, MT_Mean_Germination_Time = Some 0,
         CVt_Coefficient_Variation = Some 0, MR_Mean_Germination_Rate = Some 0,
         U_Uncertainty_Index = Some 0, Z_Synchrony_Index = Some 0,
         Variance_Germination_Time = Some 0, Standard_Deviation = Some 0,
         Speed_Maguire_Index = Some 0, T50_Time_50 = Some 0, ArcSin_Transformation = Some 0 \<rparr>"
proof -
  from assms(1) have "rectangular df" by (simp add: data_frame_def)
  from calculate_all_rows [OF this assms(2), of tie total_seeds]
  obtain days rs where rs: "calculate_all_germination_parameters tie total_seeds df = Inr rs"
      "length rs = length (rep_columns df)"
      "\<forall>k<length rs. \<exists>cells. map_of df (rep_columns df ! k) = Some cells \<and>
        length cells = length days \<and>
        replicate_record (tie k) total_seeds k (values_of days) (dtype_of cells) (fillna 0 cells)
          = Inr (rs ! k)"
    by blast
  from rs(2) assms(3) have "k < length rs" by simp
  with rs(3) obtain c where "map_of df (rep_columns df ! k) = Some c"
      "replicate_record (tie k) total_seeds k (values_of days) (dtype_of c) (fillna 0 c)
         = Inr (rs ! k)"
    by blast
  with assms(4)
  have "replicate_record (tie k) total_seeds k (values_of days) (dtype_of cells) (fillna 0 cells)
      = Inr (rs ! k)"
    by simp
  then have "rs ! k = projr (replicate_record (tie k) total_seeds k (values_of days)
      (dtype_of cells) (fillna 0 cells))"
    by simp
  also note replicate_record_zero [OF assms(5)]
  finally show ?thesis using rs(1,2) by simp
qed

lemma data_frame_no_germination: "data_frame no_germination"
  by (simp add: data_frame_def rectangular_def columns_def no_germination_def length_ints)

lemma rep_columns_no_germination: "rep_columns no_germination = [''R1'', ''R2'']"
  by (simp add: rep_columns_def columns_def no_germination_def)

theorem zero_total_row_witness:
  "data_frame no_germination \<and> no_germination \<noteq> [] \<and> 0 < length (rep_columns no_germination) \<and>
   map_of no_germination (rep_columns no_germination ! 0) = Some (ints [0, 0, 0]) \<and>
   sum_list (fillna 0 (ints [0, 0, 0])) = 0 \<and>
   (\<exists>rs. calculate_all_germination_parameters ties_down 25 no_germination = Inr rs \<and>
     length rs = length (rep_columns no_germination) \<and>
     rs ! 0 =
       \<lparr> Replicate = ''R'' @ string_of_nat (0 + 1), Total_Seeds = 25,
         Germinated_Seeds = 0, G_Germinability = Some 0, MT_Mean_Germination_Time = Some 0,
         CVt_Coefficient_Variation = Some 0, MR_Mean_Germination_Rate = Some 0,
         U_Uncertainty_Index = Some 0, Z_Synchrony_Index = Some 0,
         Variance_Germination_Time = Some 0, Standard_Deviation = Some 0,
         Speed_Maguire_Index = Some 0, T50_Time_50 = Some 0, ArcSin_Transformation = Some 0 \<rparr>)"
proof -
  have a: "no_germination \<noteq> []" by (simp add: no_germination_def)
  have b: "0 < length (rep_columns no_germination)" by (simp add: rep_columns_no_germination)
  have c: "map_of no_germination (rep_columns no_germination ! 0) = Some (ints [0, 0, 0])"
    by (simp add: rep_columns_no_germination) (simp add: no_germination_def)
  have d: "sum_list (fillna 0 (ints [0, 0, 0])) = 0" by (simp add: fillna_ints)
  note e = zero_total_row [OF data_frame_no_germination a b c d, of ties_down 25]
  show ?thesis by (intro conjI data_frame_no_germination a b c d e)
qed

lemma Germinated_Seeds_record:
  assumes "replicate_record tie total_seeds i days dt rep_data = Inr r"
  shows "Germinated_Seeds r = sum_list rep_data \<and> Total_Seeds r = total_seeds \<and>
         Replicate r = ''R'' @ string_of_nat (i + 1)"
proof (cases "replicate_stats total_seeds days dt rep_data")
  case (Inl e)
  with assms show ?thesis by (simp add: replicate_record_def)
next
  case (Inr st)
  with assms have eq: "r = result_row tie total_seeds i (sum_list rep_data) st"
    by (simp add: replicate_record_def)
  show ?thesis unfolding eq by (simp add: result_row_def)
qed


text \<open>The one exception the engine can raise: \<^verbatim>\<open>iloc[:, 0]\<close> on a frame without columns.\<close>

lemma no_columns_IndexError:
  "calculate_all_germination_parameters tie total_seeds [] = Inl IndexError"
  by (simp add: calculate_all_germination_parameters_def day_values_def)






lemma rep_columns_order:
  "rep_columns df = filter (\<lambda>col. startswith col ''R'' \<or> contains col ''Rep'') (columns df) \<or>
   rep_columns df = drop 1 (columns df)"
  by (simp add: rep_columns_def Let_def)

text \<open>
  C9, as the code has it. The engine has no cap on the number of replicates: for every frame
  with at least one column it returns one row for each replicate column, in column order.
  The replicate columns are the columns whose header starts with \<^verbatim>\<open>R\<close> or contains \<^verbatim>\<open>Rep\<close>,
  or, when there is none, all columns but the first; both keep the order of the frame.
  Row \<open>k\<close> (from 0) is labelled \<^verbatim>\<open>R\<close> followed by \<open>k + 1\<close> and is computed from the \<open>k\<close>-th replicate
  column, also beyond the sixth.
\<close>

theorem every_replicate_column_gets_a_row:
  assumes "data_frame df" and "df \<noteq> []"
  shows "\<exists>rs. calculate_all_germination_parameters tie total_seeds df = Inr rs \<and>
     length rs = length (rep_columns df) \<and>
     (rep_columns df = filter (\<lambda>col. startswith col ''R'' \<or> contains col ''Rep'') (columns df) \<or>
      rep_columns df = drop 1 (columns df)) \<and>
     (\<forall>k<length rs. Replicate (rs ! k) = ''R'' @ string_of_nat (k + 1) \<and>
        (\<exists>days cells. day_values df = Inr days \<and>
           map_of df (rep_columns df ! k) = Some cells \<and>
           replicate_record (tie k) total_seeds k (values_of days) (dtype_of cells) (fillna 0 cells)
             = Inr (rs ! k)))"
proof -
  from assms(1) have "rectangular df" by (simp add: data_frame_def)
  from calculate_all_rows [OF this assms(2), of tie total_seeds]
  obtain days rs where d: "day_values df = Inr days"
    and rs: "calculate_all_germination_parameters tie total_seeds df = Inr rs"
      "length rs = length (rep_columns df)"
      "\<forall>k<length rs. \<exists>cells. map_of df (rep_columns df ! k) = Some cells \<and>
        length cells = length days \<and>
        replicate_record (tie k) total_seeds k (values_of days) (dtype_of cells) (fillna 0 cells)
          = Inr (rs ! k)"
    by blast
  have "\<forall>k<length rs. Replicate (rs ! k) = ''R'' @ string_of_nat (k + 1) \<and>
        (\<exists>days cells. day_values df = Inr days \<and>
           map_of df (rep_columns df ! k) = Some cells \<and>
           replicate_record (tie k) total_seeds k (values_of days) (dtype_of cells) (fillna 0 cells)
             = Inr (rs ! k))"
  proof (intro allI impI)
    fix k assume "k < length rs"
    with rs(3) obtain cells where c: "map_of df (rep_columns df ! k) = Some cells"
      "replicate_record (tie k) total_seeds k (values_of days) (dtype_of cells) (fillna 0 cells)
         = Inr (rs ! k)"
      by blast
    from Germinated_Seeds_record [OF c(2)] c d
    show "Replicate (rs ! k) = ''R'' @ string_of_nat (k + 1) \<and>
        (\<exists>days cells. day_values df = Inr days \<and>
           map_of df (rep_columns df ! k) = Some cells \<and>
           replicate_record (tie k) total_seeds k (values_of days) (dtype_of cells) (fillna 0 cells)
             = Inr (rs ! k))"
      by blast
  qed
  with rs(1,2) rep_columns_order [of df] show ?thesis by blast
qed

lemma labels_seven:
  "map (\<lambda>i. ''R'' @ string_of_nat (i + 1)) [0..<7] = [''R1'', ''R2'', ''R3'', ''R4'', ''R5'', ''R6'', ''R7'']"
  by code_simp

lemma rep_columns_seven:
  "rep_columns seven_replicates = [''R1'', ''R2'', ''R3'', ''R4'', ''R5'', ''R6'', ''R7'']"
  by (simp add: rep_columns_def columns_def seven_replicates_def)

lemma seven_rows:
  "calculate_all_germination_parameters tie 25 seven_replicates =
     Inr (map (\<lambda>i. result_row (tie i) 25 i 5
                 (projr (replicate_stats 25 (map Some [1, 2]) int64 [2, 3]))) [0..<7])"
proof -
  have r: "replicate_record t 25 i (map Some [1, 2]) int64 [2, 3]
      = Inr (result_row t 25 i 5 (projr (replicate_stats 25 (map Some [1, 2]) int64 [2, 3])))" for i t
    using replicate_record_returns [of "map Some [1, 2]" "[2, 3]" 25 int64 t i] by auto
  have u: "[0..<7] = [0, 1, 2, 3, 4, 5, 6]" by code_simp
  show ?thesis
    unfolding calculate_all_germination_parameters_def rep_columns_seven
    using r
    by (simp add: seven_replicates_def day_values_def enumerate_eq_zip u eval_nat_numeral
        values_of_ints fillna_ints dtype_of_ints)
qed

text \<open>
  C9 as stated fails: a frame with seven replicate columns gives seven rows, and the seventh
  column has its own row \<^verbatim>\<open>R7\<close> with its 5 germinated seeds.
\<close>

theorem seventh_replicate_counterexample:
  "length (rep_columns seven_replicates) = 7 \<and>
   map_sum id (map Replicate) (calculate_all_germination_parameters ties_down 25 seven_replicates)
     = Inr [''R1'', ''R2'', ''R3'', ''R4'', ''R5'', ''R6'', ''R7''] \<and>
   map_sum id (map Germinated_Seeds) (calculate_all_germination_parameters ties_down 25 seven_replicates)
     = Inr [5, 5, 5, 5, 5, 5, 5]"
proof -
  let ?st = "projr (replicate_stats 25 (map Some [1, 2]) int64 [2, 3])"
  have "map Replicate (map (\<lambda>i. result_row (ties_down i) 25 i 5 ?st) [0..<7])
      = map (\<lambda>i. ''R'' @ string_of_nat (i + 1)) [0..<7]"
    by (simp add: result_row_def)
  moreover
  have "map Germinated_Seeds (map (\<lambda>i. result_row (ties_down i) 25 i 5 ?st) [0..<7])
      = map (\<lambda>i. 5) [0..<7]"
    by (simp add: result_row_def)
  moreover have "map (\<lambda>i. 5 :: int) [0..<7] = [5, 5, 5, 5, 5, 5, 5]" by code_simp
  ultimately show ?thesis
    by (simp only: seven_rows rep_columns_seven labels_seven map_sum.simps id_apply) simp
qed

theorem every_replicate_column_gets_a_row_witness:
  "data_frame seven_replicates \<and> seven_replicates \<noteq> [] \<and>
   (\<exists>rs. calculate_all_germination_parameters ties_down 25 seven_replicates = Inr rs \<and>
     length rs = length (rep_columns seven_replicates) \<and>
     (rep_columns seven_replicates
        = filter (\<lambda>col. startswith col ''R'' \<or> contains col ''Rep'') (columns seven_replicates) \<or>
      rep_columns seven_replicates = drop 1 (columns seven_replicates)) \<and>
     (\<forall>k<length rs. Replicate (rs ! k) = ''R'' @ string_of_nat (k + 1) \<and>
        (\<exists>days cells. day_values seven_replicates = Inr days \<and>
           map_of seven_replicates (rep_columns seven_replicates ! k) = Some cells \<and>
           replicate_record (ties_down k) 25 k (values_of days) (dtype_of cells) (fillna 0 cells)
             = Inr (rs ! k))))"
proof -
  have a: "data_frame seven_replicates"
    by (simp add: data_frame_def rectangular_def columns_def seven_replicates_def length_ints)
  have b: "seven_replicates \<noteq> []" by (simp add: seven_replicates_def)
  note c = every_replicate_column_gets_a_row [OF a b, of ties_down 25]
  show ?thesis by (intro conjI a b c)
qed

subsection \<open>Germinability\<close>

text \<open>The statistics of a replicate, field by field.\<close>

lemma replicate_stats_positive:
  assumes "0 < sum_list rep_data" and "calculate_tx days rep_data (sum_list rep_data) (1 / 2) = Inr t"
  shows "replicate_stats total_seeds days dt rep_data =
     Inr \<lparr> germinability = germinability_of total_seeds (sum_list rep_data),
        mgt = mgt_of days rep_data (sum_list rep_data),
        mgr = mgr_of (mgt_of days rep_data (sum_list rep_data)),
        variance = variance_of days rep_data (sum_list rep_data) (mgt_of days rep_data (sum_list rep_data)),
        std_dev = std_dev_of (variance_of days rep_data (sum_list rep_data) (mgt_of days rep_data (sum_list rep_data))),
        cv = cv_of (std_dev_of (variance_of days rep_data (sum_list rep_data) (mgt_of days rep_data (sum_list rep_data))))
               (mgt_of days rep_data (sum_list rep_data)),
        speed_maguire = speed_maguire_of days rep_data,
        uncertainty = uncertainty_of rep_data (sum_list rep_data),
        synchrony = synchrony_of dt rep_data (sum_list rep_data),
        t50 = t \<rparr>"
  using assms by (simp add: replicate_stats_def Let_def)

lemma replicate_stats_fields:
  assumes "replicate_stats total_seeds days dt rep_data = Inr st" and "0 < sum_list rep_data"
  shows "germinability st = germinability_of total_seeds (sum_list rep_data)"
    and "mgt st = mgt_of days rep_data (sum_list rep_data)"
    and "mgr st = mgr_of (mgt st)"
    and "variance st = variance_of days rep_data (sum_list rep_data) (mgt st)"
    and "std_dev st = std_dev_of (variance st)"
    and "cv st = cv_of (std_dev st) (mgt st)"
    and "speed_maguire st = speed_maguire_of days rep_data"
    and "uncertainty st = uncertainty_of rep_data (sum_list rep_data)"
    and "synchrony st = synchrony_of dt rep_data (sum_list rep_data)"
    and "calculate_tx days rep_data (sum_list rep_data) (1 / 2) = Inr (t50 st)"
proof -
  obtain t where t: "calculate_tx days rep_data (sum_list rep_data) (1 / 2) = Inr t"
    using assms by (cases "calculate_tx days rep_data (sum_list rep_data) (1 / 2)")
      (simp_all add: replicate_stats_def Let_def)
  note p = replicate_stats_positive [OF assms(2) t, of total_seeds dt]
  from p assms(1) show "germinability st = germinability_of total_seeds (sum_list rep_data)"
    by (simp only: sum.inject stats.simps)
  from p assms(1) show "mgt st = mgt_of days rep_data (sum_list rep_data)"
    by (simp only: sum.inject stats.simps)
  from p assms(1) show "mgr st = mgr_of (mgt st)"
    by (simp only: sum.inject stats.simps)
  from p assms(1) show "variance st = variance_of days rep_data (sum_list rep_data) (mgt st)"
    by (simp only: sum.inject stats.simps)
  from p assms(1) show "std_dev st = std_dev_of (variance st)"
    by (simp only: sum.inject stats.simps)
  from p assms(1) show "cv st = cv_of (std_dev st) (mgt st)"
    by (simp only: sum.inject stats.simps)
  from p assms(1) show "speed_maguire st = speed_maguire_of days rep_data"
    by (simp only: sum.inject stats.simps)
  from p assms(1) show "uncertainty st = uncertainty_of rep_data (sum_list rep_data)"
    by (simp only: sum.inject stats.simps)
  from p assms(1) show "synchrony st = synchrony_of dt rep_data (sum_list rep_data)"
    by (simp only: sum.inject stats.simps)
  from p assms(1) have "t50 st = t"
    by (simp only: sum.inject stats.simps)
  with t show "calculate_tx days rep_data (sum_list rep_data) (1 / 2) = Inr (t50 st)" by simp
qed

lemma replicate_stats_fields_zero:
  assumes "replicate_stats total_seeds days dt rep_data = Inr st" and "sum_list rep_data \<le> 0"
  shows "germinability st = Some 0" and "mgt st = Some 0" and "mgr st = Some 0"
    and "variance st = Some 0" and "std_dev st = Some 0" and "cv st = Some 0"
    and "speed_maguire st = Some 0" and "uncertainty st = Some 0" and "synchrony st = Some 0"
    and "t50 st = Some 0"
  using replicate_stats_zero [OF assms(2), of total_seeds days dt] assms(1)
  by (simp_all only: sum.inject stats.simps)

lemma germinability_of_positive:
  assumes "0 < total_seeds"
  shows "germinability_of total_seeds g = Some (100 * real_of_int g / real_of_int total_seeds)"
  using assms by (simp add: germinability_of_def np_div_def)

lemma G_Germinability_record:
  assumes "replicate_record tie total_seeds i days dt rep_data = Inr r" and "0 < total_seeds"
    and "0 \<le> sum_list rep_data"
  shows "G_Germinability r =
     py_round (tie ''G_Germinability_%'')
       (Some (100 * real_of_int (sum_list rep_data) / real_of_int total_seeds)) 2"
proof -
  obtain st where st: "replicate_stats total_seeds days dt rep_data = Inr st"
    using assms(1) by (cases "replicate_stats total_seeds days dt rep_data")
      (simp_all add: replicate_record_def)
  with assms(1) have eq: "r = result_row tie total_seeds i (sum_list rep_data) st"
    by (simp add: replicate_record_def)
  have g: "G_Germinability r = py_round (tie ''G_Germinability_%'') (germinability st) 2"
    unfolding eq by (simp add: result_row_def)
  show ?thesis
  proof (cases "0 < sum_list rep_data")
    case True
    from replicate_stats_fields(1) [OF st True] germinability_of_positive [OF assms(2)] g
    show ?thesis by simp
  next
    case False
    with assms(3) have z: "sum_list rep_data = 0" by simp
    then have "sum_list rep_data \<le> 0" by simp
    from replicate_stats_fields_zero(1) [OF st this] g z show ?thesis by simp
  qed
qed

text \<open>
  C8, as the code has it. With a positive number of seeds and a replicate whose counts do not
  sum below zero, the germinability field of the row is \<open>100 * germinated / total\<close> rounded to
  two decimals by \<^verbatim>\<open>round\<close>.
\<close>

theorem germinability_is_rounded_percentage:
  assumes "data_frame df" and "df \<noteq> []" and "0 < total_seeds"
    and "k < length (rep_columns df)"
    and "map_of df (rep_columns df ! k) = Some cells" and "0 \<le> sum_list (fillna 0 cells)"
  shows "\<exists>rs. calculate_all_germination_parameters tie total_seeds df = Inr rs \<and>
     Germinated_Seeds (rs ! k) = sum_list (fillna 0 cells) \<and> Total_Seeds (rs ! k) = total_seeds \<and>
     G_Germinability (rs ! k) =
       py_round (tie k ''G_Germinability_%'')
         (Some (100 * real_of_int (Germinated_Seeds (rs ! k)) / real_of_int (Total_Seeds (rs ! k)))) 2"
proof -
  from assms(1) have "rectangular df" by (simp add: data_frame_def)
  from calculate_all_rows [OF this assms(2), of tie total_seeds]
  obtain days rs where rs: "calculate_all_germination_parameters tie total_seeds df = Inr rs"
      "length rs = length (rep_columns df)"
      "\<forall>k<length rs. \<exists>cells. map_of df (rep_columns df ! k) = Some cells \<and>
        length cells = length days \<and>
        replicate_record (tie k) total_seeds k (values_of days) (dtype_of cells) (fillna 0 cells)
          = Inr (rs ! k)"
    by blast
  from rs(2) assms(4) have "k < length rs" by simp
  with rs(3) assms(5)
  have r: "replicate_record (tie k) total_seeds k (values_of days) (dtype_of cells) (fillna 0 cells)
      = Inr (rs ! k)"
    by fastforce
  note f = Germinated_Seeds_record [OF r]
  note g = G_Germinability_record [OF r assms(3,6)]
  show ?thesis
    using rs(1) f g by (intro exI [of _ rs]) simp
qed

lemma tx_one_seed: "calculate_tx (map Some [1]) [1] 1 (1 / 2) = Inr (Some 1)"
  by code_simp

lemma one_seed_row:
  "map_sum id (map Germinated_Seeds) (calculate_all_germination_parameters tie 3 one_seed) = Inr [1] \<and>
   map_sum id (map Total_Seeds) (calculate_all_germination_parameters tie 3 one_seed) = Inr [3] \<and>
   map_sum id (map G_Germinability) (calculate_all_germination_parameters tie 3 one_seed)
     = Inr [Some (3333 / 100)]"
  using tx_one_seed
  by (simp add: one_seed_def calculate_all_germination_parameters_def day_values_def
      rep_columns_def columns_def enumerate_eq_zip replicate_record_def replicate_stats_def
      values_of_ints fillna_ints dtype_of_ints
      result_row_def Let_def germinability_of_def np_div_def py_round_def rint_def)

text \<open>
  C8 as stated fails: one germinated seed out of three gives the field 33.33, which is not
  \<open>100 * 1 / 3\<close>.
\<close>

theorem germinability_exact_counterexample:
  "map_sum id (map Germinated_Seeds) (calculate_all_germination_parameters ties_down 3 one_seed) = Inr [1] \<and>
   map_sum id (map Total_Seeds) (calculate_all_germination_parameters ties_down 3 one_seed) = Inr [3] \<and>
   map_sum id (map G_Germinability) (calculate_all_germination_parameters ties_down 3 one_seed)
     = Inr [Some (3333 / 100)] \<and>
   map_sum id (map G_Germinability) (calculate_all_germination_parameters ties_up 3 one_seed)
     = Inr [Some (3333 / 100)] \<and>
   (3333 / 100 :: real) \<noteq> 100 * 1 / 3"
  using one_seed_row [of ties_down] one_seed_row [of ties_up] by simp

theorem germinability_is_rounded_percentage_witness:
  "data_frame one_seed \<and> one_seed \<noteq> [] \<and> (0 :: int) < 3 \<and> 0 < length (rep_columns one_seed) \<and>
   map_of one_seed (rep_columns one_seed ! 0) = Some (ints [1]) \<and> 0 \<le> sum_list (fillna 0 (ints [1])) \<and>
   (\<exists>rs. calculate_all_germination_parameters ties_down 3 one_seed = Inr rs \<and>
     Germinated_Seeds (rs ! 0) = sum_list (fillna 0 (ints [1])) \<and> Total_Seeds (rs ! 0) = 3 \<and>
     G_Germinability (rs ! 0) =
       py_round (ties_down 0 ''G_Germinability_%'')
         (Some (100 * real_of_int (Germinated_Seeds (rs ! 0)) / real_of_int (Total_Seeds (rs ! 0)))) 2)"
proof -
  have a: "data_frame one_seed"
    by (simp add: data_frame_def rectangular_def columns_def one_seed_def length_ints)
  have b: "one_seed \<noteq> []" by (simp add: one_seed_def)
  have c: "(0 :: int) < 3" by simp
  have rc: "rep_columns one_seed = [''R1'']"
    by (simp add: rep_columns_def columns_def one_seed_def)
  have d: "0 < length (rep_columns one_seed)" by (simp add: rc)
  have e: "map_of one_seed (rep_columns one_seed ! 0) = Some (ints [1])"
    by (simp add: rc) (simp add: one_seed_def)
  have f: "0 \<le> sum_list (fillna 0 (ints [1]))" by (simp add: fillna_ints)
  note g = germinability_is_rounded_percentage [OF a b c d e f, of ties_down]
  show ?thesis by (intro conjI a b c d e f g)
qed

subsection \<open>Speed index\<close>

lemma those_map2_div:
  assumes "list_all (\<lambda>d. 0 < d) days"
  shows "those (map2 (\<lambda>n d. d \<bind> (\<lambda>x. np_div (real_of_int n) x)) rep_data (map Some days))
       = Some (map2 (\<lambda>n d. real_of_int n / d) rep_data days)"
  using assms
proof (induction rep_data arbitrary: days)
  case Nil
  then show ?case by simp
next
  case (Cons n ns)
  show ?case
  proof (cases days)
    case Nil
    then show ?thesis by simp
  next
    case (Cons d ds)
    with Cons.prems have "0 < d" "list_all (\<lambda>d. 0 < d) ds" by simp_all
    with Cons.IH [of ds] Cons show ?thesis by (simp add: np_div_def)
  qed
qed

lemma all_days_positive_Some: "all_days_positive (map Some days) = list_all (\<lambda>d. 0 < d) days"
  by (induction days) (simp_all add: all_days_positive_def)

lemma speed_maguire_of_eq:
  "speed_maguire_of (map Some days) rep_data =
     Some (if list_all (\<lambda>d. 0 < d) days
           then sum_list (map2 (\<lambda>n d. real_of_int n / d) rep_data days) else 0)"
  by (simp add: speed_maguire_of_def np_sum_def those_map2_div all_days_positive_Some)

lemma nonneg_sum_zero:
  assumes "list_all (\<lambda>n. 0 \<le> n) (ns :: int list)" and "sum_list ns \<le> 0"
  shows "list_all (\<lambda>n. n = 0) ns"
  using assms
proof (induction ns)
  case Nil
  then show ?case by simp
next
  case (Cons n ns)
  then have n: "0 \<le> n" and ns: "list_all (\<lambda>n. 0 \<le> n) ns" by simp_all
  from ns have "0 \<le> sum_list ns" by (induction ns) auto
  with Cons.prems(2) n have "n = 0" "sum_list ns \<le> 0" by simp_all
  with Cons.IH ns show ?case by simp
qed

lemma map2_zero_counts:
  assumes "list_all (\<lambda>n. n = 0) (ns :: int list)"
  shows "sum_list (map2 (\<lambda>n d. real_of_int n / d) ns days) = 0"
  using assms
proof (induction ns arbitrary: days)
  case Nil
  then show ?case by simp
next
  case (Cons n ns)
  then show ?case by (cases days) simp_all
qed

lemma those_weighted_days:
  "those (map2 (\<lambda>d n. map_option (\<lambda>x. x * real_of_int n) d) (map Some days) rep_data)
     = Some (map2 (\<lambda>d n. d * real_of_int n) days rep_data)"
proof (induction days arbitrary: rep_data)
  case Nil
  then show ?case by simp
next
  case (Cons d ds)
  then show ?case by (cases rep_data) simp_all
qed

lemma mgt_of_positive:
  assumes "0 < tot"
  shows "mgt_of (map Some days) rep_data tot
       = Some (sum_list (map2 (\<lambda>d n. d * real_of_int n) days rep_data) / real_of_int tot)"
  using assms by (simp add: mgt_of_def np_sum_def those_weighted_days np_div_def)

text \<open>
  C6. For a replicate with counts that are not negative, the speed index is the sum of
  \<open>count / day\<close> over all rows when every day is positive, and 0 as soon as one day is not
  (no row is skipped); the field of the row is that value rounded to two decimals. The mean
  germination time has no such guard: with a positive total it is the weighted sum of the
  days, a day 0 included, divided by the total.
\<close>

theorem speed_index_all_or_nothing:
  assumes "length days = length rep_data" and "list_all (\<lambda>n. 0 \<le> n) rep_data"
  shows "\<exists>st. replicate_stats total_seeds (map Some days) dt rep_data = Inr st \<and>
     replicate_record tie total_seeds i (map Some days) dt rep_data
       = Inr (result_row tie total_seeds i (sum_list rep_data) st) \<and>
     speed_maguire st =
       Some (if list_all (\<lambda>d. 0 < d) days
             then sum_list (map2 (\<lambda>n d. real_of_int n / d) rep_data days) else 0) \<and>
     Speed_Maguire_Index (result_row tie total_seeds i (sum_list rep_data) st)
       = py_round (tie ''Speed_Maguire_Index'') (speed_maguire st) 2 \<and>
     mgt st =
       Some (if 0 < sum_list rep_data
             then sum_list (map2 (\<lambda>d n. d * real_of_int n) days rep_data)
                  / real_of_int (sum_list rep_data)
             else 0)"
proof -
  obtain st where st: "replicate_stats total_seeds (map Some days) dt rep_data = Inr st"
    and r: "replicate_record tie total_seeds i (map Some days) dt rep_data
       = Inr (result_row tie total_seeds i (sum_list rep_data) st)"
    using replicate_record_returns [of "map Some days" rep_data total_seeds dt tie i] assms(1) by auto
  have f: "Speed_Maguire_Index (result_row tie total_seeds i (sum_list rep_data) st)
       = py_round (tie ''Speed_Maguire_Index'') (speed_maguire st) 2"
    by (simp add: result_row_def)
  show ?thesis
  proof (cases "0 < sum_list rep_data")
    case True
    from replicate_stats_fields(7) [OF st True] speed_maguire_of_eq
    have s: "speed_maguire st =
       Some (if list_all (\<lambda>d. 0 < d) days
             then sum_list (map2 (\<lambda>n d. real_of_int n / d) rep_data days) else 0)"
      by simp
    from replicate_stats_fields(2) [OF st True] mgt_of_positive [OF True] True
    have m: "mgt st =
       Some (if 0 < sum_list rep_data
             then sum_list (map2 (\<lambda>d n. d * real_of_int n) days rep_data)
                  / real_of_int (sum_list rep_data)
             else 0)"
      by simp
    from st r s f m show ?thesis by blast
  next
    case False
    then have le: "sum_list rep_data \<le> 0" by simp
    from nonneg_sum_zero [OF assms(2) le]
    have "sum_list (map2 (\<lambda>n d. real_of_int n / d) rep_data days) = 0"
      by (rule map2_zero_counts)
    with replicate_stats_fields_zero(7) [OF st le]
    have s: "speed_maguire st =
       Some (if list_all (\<lambda>d. 0 < d) days
             then sum_list (map2 (\<lambda>n d. real_of_int n / d) rep_data days) else 0)"
      by simp
    from replicate_stats_fields_zero(2) [OF st le] False
    have m: "mgt st =
       Some (if 0 < sum_list rep_data
             then sum_list (map2 (\<lambda>d n. d * real_of_int n) days rep_data)
                  / real_of_int (sum_list rep_data)
             else 0)"
      by simp
    from st r s f m show ?thesis by blast
  qed
qed

theorem speed_index_all_or_nothing_witness:
  "length [0, 1, 2 :: real] = length [3, 4, 3 :: int] \<and> list_all (\<lambda>n. 0 \<le> n) [3, 4, 3 :: int] \<and>
   (\<exists>st. replicate_stats 25 (map Some [0, 1, 2]) int64 [3, 4, 3] = Inr st \<and>
      replicate_record (ties_down 0) 25 0 (map Some [0, 1, 2]) int64 [3, 4, 3]
        = Inr (result_row (ties_down 0) 25 0 (sum_list [3, 4, 3]) st) \<and>
      speed_maguire st = Some 0 \<and>
      Speed_Maguire_Index (result_row (ties_down 0) 25 0 (sum_list [3, 4, 3]) st) = Some 0 \<and>
      mgt st = Some ((0 * 3 + 1 * 4 + 2 * 3) / 10))"
proof -
  have a: "length [0, 1, 2 :: real] = length [3, 4, 3 :: int]" by simp
  have b: "list_all (\<lambda>n. 0 \<le> n) [3, 4, 3 :: int]" by simp
  from speed_index_all_or_nothing [OF a b, of 25 int64 "ties_down 0" 0]
  obtain st where "replicate_stats 25 (map Some [0, 1, 2]) int64 [3, 4, 3] = Inr st"
    "replicate_record (ties_down 0) 25 0 (map Some [0, 1, 2]) int64 [3, 4, 3]
       = Inr (result_row (ties_down 0) 25 0 (sum_list [3, 4, 3]) st)"
    "speed_maguire st = Some 0"
    "Speed_Maguire_Index (result_row (ties_down 0) 25 0 (sum_list [3, 4, 3]) st)
       = py_round (ties_down 0 ''Speed_Maguire_Index'') (speed_maguire st) 2"
    "mgt st = Some ((0 * 3 + 1 * 4 + 2 * 3) / 10)"
    by auto
  then have "\<exists>st. replicate_stats 25 (map Some [0, 1, 2]) int64 [3, 4, 3] = Inr st \<and>
      replicate_record (ties_down 0) 25 0 (map Some [0, 1, 2]) int64 [3, 4, 3]
        = Inr (result_row (ties_down 0) 25 0 (sum_list [3, 4, 3]) st) \<and>
      speed_maguire st = Some 0 \<and>
      Speed_Maguire_Index (result_row (ties_down 0) 25 0 (sum_list [3, 4, 3]) st) = Some 0 \<and>
      mgt st = Some ((0 * 3 + 1 * 4 + 2 * 3) / 10)"
    by (auto simp: py_round_0)
  with a b show ?thesis by blast
qed

subsection \<open>Synchrony index\<close>

lemma fact_Suc_Suc: "fact (Suc (Suc m)) = (m + 2) * (m + 1) * (fact m :: nat)"
  by (simp add: algebra_simps)

lemma combination_2:
  assumes "0 \<le> n"
  shows "combination int64 n 2 = real_of_int (n * (n - 1)) / 2"
proof (cases "n < 2")
  case True
  with assms have "n = 0 \<or> n = 1" by auto
  then show ?thesis by (auto simp: combination_def)
next
  case False
  define m where "m = nat n - 2"
  have m: "nat n = Suc (Suc m)" using False by (simp add: m_def)
  then have n: "n = int m + 2" by linarith
  have d: "nat (n - 2) = m" using n by simp
  have two: "fact (nat 2) = (2 :: nat)" by (simp add: nat_2)
  have pos: "(2 :: nat) * fact m \<noteq> 0" by simp
  have "combination int64 n 2 = real (fact (nat n)) / real (fact (nat 2) * fact (nat (n - 2)))"
    using False assms by (simp add: combination_def math_factorial_def int_truediv_def)
  also have "\<dots> = real ((m + 2) * (m + 1) * fact m) / real (2 * fact m)"
    by (simp only: m d two fact_Suc_Suc)
  also have "\<dots> = (real ((m + 2) * (m + 1)) * real (fact m)) / (2 * real (fact m))"
    by (simp only: of_nat_mult of_nat_numeral)
  also have "\<dots> = real ((m + 2) * (m + 1)) / 2"
    by simp
  also have "\<dots> = real_of_int (n * (n - 1)) / 2"
    using n by (simp add: algebra_simps)
  finally show ?thesis .
qed

lemma combination_2_small: "n < 2 \<Longrightarrow> combination int64 n 2 = 0"
  by (simp add: combination_def)

text \<open>The numerator: unordered pairs within each day.\<close>

lemma numerator_pairs:
  assumes "list_all (\<lambda>n. 0 \<le> n) rep_data"
  shows "sum_list (map (\<lambda>ni. combination int64 ni 2) (filter (\<lambda>ni. 2 \<le> ni) rep_data))
       = real_of_int (\<Sum>ni\<leftarrow>rep_data. ni * (ni - 1)) / 2"
  using assms
proof (induction rep_data)
  case Nil
  then show ?case by simp
next
  case (Cons n ns)
  then have n: "0 \<le> n" and ns: "list_all (\<lambda>n. 0 \<le> n) ns" by simp_all
  show ?case
  proof (cases "2 \<le> n")
    case True
    with Cons.IH [OF ns] combination_2 [OF n] show ?thesis
      by (simp add: add_divide_distrib)
  next
    case False
    with n have "n = 0 \<or> n = 1" by auto
    with Cons.IH [OF ns] False show ?thesis by auto
  qed
qed

lemma pairs_nonneg:
  assumes "list_all (\<lambda>n. 0 \<le> n) (ns :: int list)"
  shows "0 \<le> (\<Sum>ni\<leftarrow>ns. ni * (ni - 1))"
  using assms
proof (induction ns)
  case Nil
  then show ?case by simp
next
  case (Cons n ns)
  then have "0 \<le> n" by simp
  then have "0 \<le> n * (n - 1)"
    by (cases "n = 0") (simp_all add: zero_le_mult_iff)
  with Cons show ?case by simp
qed

lemma pairs_le_total:
  assumes "list_all (\<lambda>n. 0 \<le> n) (ns :: int list)"
  shows "(\<Sum>ni\<leftarrow>ns. ni * (ni - 1)) \<le> sum_list ns * (sum_list ns - 1)"
  using assms
proof (induction ns)
  case Nil
  then show ?case by simp
next
  case (Cons n ns)
  then have n: "0 \<le> n" and ns: "list_all (\<lambda>n. 0 \<le> n) ns" by simp_all
  from ns have s: "0 \<le> sum_list ns" by (induction ns) auto
  have "0 \<le> 2 * (n * sum_list ns)" using n s by simp
  moreover have "(n + sum_list ns) * (n + sum_list ns - 1)
      = n * (n - 1) + sum_list ns * (sum_list ns - 1) + 2 * (n * sum_list ns)"
    by (simp add: algebra_simps)
  ultimately show ?case using Cons.IH [OF ns] by simp
qed

lemma synchrony_of_eq:
  assumes "list_all (\<lambda>n. 0 \<le> n) rep_data" and "0 \<le> sum_list rep_data"
  shows "synchrony_of int64 rep_data (sum_list rep_data) =
     Some (if 2 \<le> sum_list rep_data
           then sum_list (map (\<lambda>ni. combination int64 ni 2) (filter (\<lambda>ni. 2 \<le> ni) rep_data))
                / combination int64 (sum_list rep_data) 2
           else 0)"
proof (cases "2 \<le> sum_list rep_data")
  case True
  then have "0 < sum_list rep_data * (sum_list rep_data - 1)" by (simp add: zero_less_mult_iff)
  then have "0 < real_of_int (sum_list rep_data * (sum_list rep_data - 1))"
    by (simp only: of_int_0_less_iff)
  then have "0 < real_of_int (sum_list rep_data * (sum_list rep_data - 1)) / 2" by simp
  then have "0 < combination int64 (sum_list rep_data) 2"
    by (simp only: combination_2 [OF assms(2)])
  with True show ?thesis by (simp add: synchrony_of_def Let_def np_div_def)
next
  case False
  then have "combination int64 (sum_list rep_data) 2 = 0" by (simp add: combination_2_small)
  with False show ?thesis by (simp add: synchrony_of_def Let_def)
qed

lemma synchrony_range:
  assumes "list_all (\<lambda>n. 0 \<le> n) rep_data" and "2 \<le> sum_list rep_data"
  shows "0 \<le> sum_list (map (\<lambda>ni. combination int64 ni 2) (filter (\<lambda>ni. 2 \<le> ni) rep_data))
                / combination int64 (sum_list rep_data) 2"
    and "sum_list (map (\<lambda>ni. combination int64 ni 2) (filter (\<lambda>ni. 2 \<le> ni) rep_data))
                / combination int64 (sum_list rep_data) 2 \<le> 1"
proof -
  let ?p = "\<Sum>ni\<leftarrow>rep_data. ni * (ni - 1)"
  let ?t = "sum_list rep_data * (sum_list rep_data - 1)"
  have t: "0 < ?t" using assms(2) by (simp add: zero_less_mult_iff)
  have c: "combination int64 (sum_list rep_data) 2 = real_of_int ?t / 2"
    using assms(2) by (intro combination_2) simp
  note n = numerator_pairs [OF assms(1)]
  have p0: "0 \<le> ?p" using assms(1) by (rule pairs_nonneg)
  have pt: "?p \<le> ?t" using assms(1) by (rule pairs_le_total)
  have rt: "0 < real_of_int ?t" using t by (simp only: of_int_0_less_iff)
  have q: "sum_list (map (\<lambda>ni. combination int64 ni 2) (filter (\<lambda>ni. 2 \<le> ni) rep_data))
                / combination int64 (sum_list rep_data) 2 = real_of_int ?p / real_of_int ?t"
    unfolding n c by simp
  have rp: "0 \<le> real_of_int ?p" using p0 by (simp only: of_int_0_le_iff)
  show "0 \<le> sum_list (map (\<lambda>ni. combination int64 ni 2) (filter (\<lambda>ni. 2 \<le> ni) rep_data))
                / combination int64 (sum_list rep_data) 2"
    unfolding q using rp rt by (intro divide_nonneg_pos)
  have "real_of_int ?p \<le> real_of_int ?t" using pt by (simp only: of_int_le_iff)
  then show "sum_list (map (\<lambda>ni. combination int64 ni 2) (filter (\<lambda>ni. 2 \<le> ni) rep_data))
                / combination int64 (sum_list rep_data) 2 \<le> 1"
    unfolding q using rt by (simp only: divide_le_eq_1 if_True simp_thms)
qed

lemma rint_range:
  assumes "0 \<le> x" and "x \<le> real_of_int N"
  shows "0 \<le> rint up x" and "rint up x \<le> N"
proof -
  have f0: "0 \<le> \<lfloor>x\<rfloor>" using assms(1) by simp
  have fN: "\<lfloor>x\<rfloor> \<le> N" using assms(2) by (simp add: floor_le_iff)
  have nxt: "\<lfloor>x\<rfloor> + 1 \<le> N" if "1 / 2 \<le> x - real_of_int \<lfloor>x\<rfloor>"
  proof -
    from that have "real_of_int \<lfloor>x\<rfloor> < x" by simp
    with assms(2) have "real_of_int \<lfloor>x\<rfloor> < real_of_int N" by simp
    then have "\<lfloor>x\<rfloor> < N" by (simp only: of_int_less_iff)
    then show ?thesis by simp
  qed
  show "0 \<le> rint up x" using f0 by (simp add: rint_def Let_def)
  show "rint up x \<le> N" using fN nxt by (auto simp: rint_def Let_def)
qed

lemma rint_of_int: "rint up (real_of_int k) = k"
  by (simp add: rint_def)

lemma py_round_unit:
  assumes "0 \<le> z" and "z \<le> 1"
  shows "\<exists>zf. py_round up (Some z) n = Some zf \<and> 0 \<le> zf \<and> zf \<le> 1"
proof -
  have a: "0 \<le> z * 10 ^ n" using assms(1) by simp
  have "z * 10 ^ n \<le> 1 * 10 ^ n" using assms(2) by (intro mult_right_mono) simp_all
  then have b: "z * 10 ^ n \<le> real_of_int (10 ^ n)" by simp
  note r = rint_range [OF a b]
  have "0 \<le> real_of_int (rint up (z * 10 ^ n)) / 10 ^ n" using r(1) by simp
  moreover have "real_of_int (rint up (z * 10 ^ n)) \<le> real_of_int (10 ^ n)"
    using r(2) by (simp only: of_int_le_iff)
  then have "real_of_int (rint up (z * 10 ^ n)) / 10 ^ n \<le> 1" by (simp add: divide_le_eq_1)
  moreover have "py_round up (Some z) n = Some (real_of_int (rint up (z * 10 ^ n)) / 10 ^ n)"
    by (simp add: py_round_def)
  ultimately show ?thesis by blast
qed

lemma py_round_1: "py_round up (Some 1) n = Some 1"
proof -
  have "rint up (1 * 10 ^ n) = 10 ^ n"
    using rint_of_int [of up "10 ^ n"] by simp
  then show ?thesis by (simp add: py_round_def)
qed

lemma combination_2_pos:
  assumes "2 \<le> n"
  shows "0 < combination int64 n 2"
proof -
  from assms have "0 < n * (n - 1)" by (simp add: zero_less_mult_iff)
  then have "0 < real_of_int (n * (n - 1))" by (simp only: of_int_0_less_iff)
  then have "0 < real_of_int (n * (n - 1)) / 2" by simp
  moreover have "0 \<le> n" using assms by simp
  ultimately show ?thesis by (simp only: combination_2)
qed

lemma single_day_filter:
  assumes "2 \<le> n"
  shows "filter (\<lambda>ni. 2 \<le> ni) (replicate a 0 @ n # replicate b (0 :: int)) = [n]"
  using assms by simp

lemma no_pairs_filter:
  assumes "list_all (\<lambda>n. n \<le> 1) (ns :: int list)"
  shows "filter (\<lambda>ni. 2 \<le> ni) ns = []"
  using assms by (induction ns) auto

lemma synchrony_pairs:
  assumes "list_all (\<lambda>n. 0 \<le> n) rep_data" and "2 \<le> sum_list rep_data"
  shows "sum_list (map (\<lambda>ni. combination int64 ni 2) (filter (\<lambda>ni. 2 \<le> ni) rep_data))
           / combination int64 (sum_list rep_data) 2
       = real_of_int (\<Sum>ni\<leftarrow>rep_data. ni * (ni - 1))
           / real_of_int (sum_list rep_data * (sum_list rep_data - 1))"
proof -
  have c: "combination int64 (sum_list rep_data) 2
      = real_of_int (sum_list rep_data * (sum_list rep_data - 1)) / 2"
    using assms(2) by (intro combination_2) simp
  show ?thesis
    unfolding numerator_pairs [OF assms(1)] c by simp
qed

lemma combination_float64: "combination float64 n r = 0"
  by (simp add: combination_def math_factorial_def)

lemma synchrony_of_float64: "synchrony_of float64 rep_data tot = Some 0"
  by (simp add: synchrony_of_def combination_float64)

text \<open>
  A replicate column without a blank cell and without a negative count: the synchrony index is
  the number of pairs of germinations of the same day divided by the number of all pairs,
  \<open>\<Sum> n (n - 1) / (N (N - 1))\<close>, when the total \<open>N\<close> is at least 2, and 0 otherwise. It lies in
  \<open>[0, 1]\<close>, is 1 when all germination falls on a single day and 0 when no day has more than
  one germination; so is the field of the row.
\<close>

lemma synchrony_int64_column:
  assumes "length days = length rep_data" and "list_all (\<lambda>n. 0 \<le> n) rep_data"
  shows "\<exists>st z zf. replicate_stats total_seeds days int64 rep_data = Inr st \<and>
     replicate_record tie total_seeds i days int64 rep_data
       = Inr (result_row tie total_seeds i (sum_list rep_data) st) \<and>
     synchrony st = Some z \<and>
     Z_Synchrony_Index (result_row tie total_seeds i (sum_list rep_data) st) = Some zf \<and>
     Some zf = py_round (tie ''Z_Synchrony_Index'') (Some z) 3 \<and>
     z = (if 2 \<le> sum_list rep_data
          then sum_list (map (\<lambda>ni. combination int64 ni 2) (filter (\<lambda>ni. 2 \<le> ni) rep_data))
               / combination int64 (sum_list rep_data) 2
          else 0) \<and>
     z = (if 2 \<le> sum_list rep_data
          then real_of_int (\<Sum>ni\<leftarrow>rep_data. ni * (ni - 1))
               / real_of_int (sum_list rep_data * (sum_list rep_data - 1))
          else 0) \<and>
     0 \<le> z \<and> z \<le> 1 \<and> 0 \<le> zf \<and> zf \<le> 1 \<and>
     (2 \<le> sum_list rep_data \<and> rep_data = replicate a 0 @ sum_list rep_data # replicate b 0
        \<longrightarrow> z = 1 \<and> zf = 1) \<and>
     (sum_list rep_data < 2 \<or> list_all (\<lambda>n. n \<le> 1) rep_data \<longrightarrow> z = 0 \<and> zf = 0)"
proof -
  let ?total = "sum_list rep_data"
  let ?num = "sum_list (map (\<lambda>ni. combination int64 ni 2) (filter (\<lambda>ni. 2 \<le> ni) rep_data))"
  let ?up = "tie ''Z_Synchrony_Index''"
  define z where "z = (if 2 \<le> ?total then ?num / combination int64 ?total 2 else 0)"
  obtain st where st: "replicate_stats total_seeds days int64 rep_data = Inr st"
    and r: "replicate_record tie total_seeds i days int64 rep_data
       = Inr (result_row tie total_seeds i (sum_list rep_data) st)"
    using replicate_record_returns [OF assms(1)] by blast
  have nn: "0 \<le> ?total" using assms(2) by (induction rep_data) auto
  have sz: "synchrony st = Some z"
  proof (cases "0 < ?total")
    case True
    from replicate_stats_fields(9) [OF st True] synchrony_of_eq [OF assms(2) nn]
    show ?thesis by (simp add: z_def)
  next
    case False
    then have "?total \<le> 0" by simp
    from replicate_stats_fields_zero(9) [OF st this] False show ?thesis by (simp add: z_def)
  qed
  have z0: "0 \<le> z" and z1: "z \<le> 1"
    using synchrony_range [OF assms(2)] by (simp_all add: z_def)
  obtain zf where zf: "py_round ?up (Some z) 3 = Some zf" "0 \<le> zf" "zf \<le> 1"
    using py_round_unit [OF z0 z1] by blast
  have fld: "Z_Synchrony_Index (result_row tie total_seeds i (sum_list rep_data) st) = Some zf"
    using sz zf(1) by (simp add: result_row_def)
  have one: "z = 1 \<and> zf = 1"
    if "2 \<le> ?total \<and> rep_data = replicate a 0 @ ?total # replicate b 0"
  proof -
    from that have t: "2 \<le> ?total" and e: "rep_data = replicate a 0 @ ?total # replicate b 0"
      by simp_all
    have "filter (\<lambda>ni. 2 \<le> ni) rep_data = [?total]"
      by (subst e) (rule single_day_filter [OF t])
    then have n: "?num = combination int64 ?total 2" by simp
    have "combination int64 ?total 2 \<noteq> 0" using combination_2_pos [OF t] by simp
    with n t have "z = 1" by (simp add: z_def)
    with zf(1) py_round_1 [of ?up 3] show ?thesis by simp
  qed
  have zero: "z = 0 \<and> zf = 0" if "?total < 2 \<or> list_all (\<lambda>n. n \<le> 1) rep_data"
  proof -
    have "z = 0"
    proof (cases "?total < 2")
      case True
      then show ?thesis by (simp add: z_def)
    next
      case False
      with that have "list_all (\<lambda>n. n \<le> 1) rep_data" by simp
      then have "?num = 0" by (simp add: no_pairs_filter)
      then show ?thesis by (simp add: z_def)
    qed
    with zf(1) py_round_0 [of ?up 3] show ?thesis by simp
  qed
  have zs: "Some zf = py_round ?up (Some z) 3" using zf(1) by simp
  have zd: "z = (if 2 \<le> ?total then ?num / combination int64 ?total 2 else 0)" by (simp only: z_def)
  have zc: "z = (if 2 \<le> ?total
          then real_of_int (\<Sum>ni\<leftarrow>rep_data. ni * (ni - 1)) / real_of_int (?total * (?total - 1))
          else 0)"
  proof (cases "2 \<le> ?total")
    case True
    with synchrony_pairs [OF assms(2) True] show ?thesis by (simp only: z_def if_True)
  next
    case False
    then show ?thesis by (simp only: z_def if_False)
  qed
  have o: "2 \<le> ?total \<and> rep_data = replicate a 0 @ ?total # replicate b 0 \<longrightarrow> z = 1 \<and> zf = 1"
    using one by blast
  have n: "?total < 2 \<or> list_all (\<lambda>n. n \<le> 1) rep_data \<longrightarrow> z = 0 \<and> zf = 0"
    using zero by blast
  show ?thesis
    by (intro exI [of _ st] exI [of _ z] exI [of _ zf] conjI)
      (rule st r sz fld zs zd zc z0 z1 zf(2) zf(3) o n)+
qed

text \<open>
  A replicate column with a blank cell: whatever its counts, the synchrony of the row is 0.
\<close>

lemma synchrony_float64_column:
  assumes "replicate_record tie total_seeds i days float64 rep_data = Inr r"
  shows "Z_Synchrony_Index r = Some 0"
proof -
  obtain st where st: "replicate_stats total_seeds days float64 rep_data = Inr st"
    using assms by (cases "replicate_stats total_seeds days float64 rep_data")
      (simp_all add: replicate_record_def)
  with assms have eq: "r = result_row tie total_seeds i (sum_list rep_data) st"
    by (simp add: replicate_record_def)
  have z: "Z_Synchrony_Index r = py_round (tie ''Z_Synchrony_Index'') (synchrony st) 3"
    unfolding eq by (simp add: result_row_def)
  have "synchrony st = Some 0"
  proof (cases "0 < sum_list rep_data")
    case True
    from replicate_stats_fields(9) [OF st True] show ?thesis
      by (simp add: synchrony_of_float64)
  next
    case False
    then have "sum_list rep_data \<le> 0" by simp
    from replicate_stats_fields_zero(9) [OF st this] show ?thesis .
  qed
  with z show ?thesis by (simp add: py_round_0)
qed

lemma tx_single_day: "calculate_tx (map Some [1, 2, 3]) [0, 10, 0] 10 (1 / 2) = Inr (Some (3 / 2))"
  by code_simp

lemma combination_10: "combination int64 10 2 = 45"
  using combination_2 [of 10] by simp

lemma synchrony_single_day:
  "synchrony_of int64 [0, 10, 0] 10 = Some 1"
  by (simp add: synchrony_of_def combination_10 np_div_def)

lemma single_day_blank_row:
  "map_sum id (map Germinated_Seeds)
     (calculate_all_germination_parameters tie 25 single_day_blank) = Inr [10] \<and>
   map_sum id (map Z_Synchrony_Index)
     (calculate_all_germination_parameters tie 25 single_day_blank) = Inr [Some 0]"
proof -
  have d: "dtype_of [None, Some 10, None] = float64" by (simp add: dtype_of_def)
  have f: "fillna 0 [None, Some 10, None] = [0, 10, 0]" by (simp add: fillna_def)
  show ?thesis
    using tx_single_day
    by (simp add: single_day_blank_def calculate_all_germination_parameters_def day_values_def
      rep_columns_def columns_def enumerate_eq_zip replicate_record_def replicate_stats_def
      values_of_ints d f synchrony_of_float64 result_row_def Let_def py_round_0)
qed

lemma single_day_zeros_row:
  "map_sum id (map Germinated_Seeds)
     (calculate_all_germination_parameters tie 25 single_day_zeros) = Inr [10] \<and>
   map_sum id (map Z_Synchrony_Index)
     (calculate_all_germination_parameters tie 25 single_day_zeros) = Inr [Some 1]"
  using tx_single_day
  by (simp add: single_day_zeros_def calculate_all_germination_parameters_def day_values_def
      rep_columns_def columns_def enumerate_eq_zip replicate_record_def replicate_stats_def
      values_of_ints fillna_ints dtype_of_ints synchrony_single_day result_row_def Let_def
      py_round_1)

text \<open>
  C3, at an input where it fails. All ten germinations of the replicate fall on day 2 and the
  cells of the two other days are blank. The column is then a \<^verbatim>\<open>float64\<close> column,
  \<^verbatim>\<open>math.factorial\<close> raises \<^verbatim>\<open>TypeError\<close> on its values, the bare \<^verbatim>\<open>except\<close> of
  \<^verbatim>\<open>_combination\<close> returns 0 for the numerator and for the denominator, and the synchrony of
  the row is 0. The claim says exactly 1, which is what the same counts give when the two
  cells hold 0 instead of being blank.
\<close>

theorem synchrony_zero_with_blank_cells:
  "map_sum id (map Germinated_Seeds)
     (calculate_all_germination_parameters tie 25 single_day_blank) = Inr [10] \<and>
   map_sum id (map Z_Synchrony_Index)
     (calculate_all_germination_parameters tie 25 single_day_blank) = Inr [Some 0] \<and>
   map_sum id (map Germinated_Seeds)
     (calculate_all_germination_parameters tie 25 single_day_zeros) = Inr [10] \<and>
   map_sum id (map Z_Synchrony_Index)
     (calculate_all_germination_parameters tie 25 single_day_zeros) = Inr [Some 1]"
  using single_day_blank_row [of tie] single_day_zeros_row [of tie] by simp

subsection \<open>Which fields are finite\<close>

lemma those_map_Some: "those (map (\<lambda>x. Some (g x)) xs) = Some (map g xs)"
  by (induction xs) simp_all

lemma py_round_finite: "\<exists>y. py_round up (Some x) n = Some y"
  by (simp add: py_round_def)

lemma weighted_squares_nonneg:
  assumes "list_all (\<lambda>n. 0 \<le> n) rep_data"
  shows "0 \<le> sum_list (map2 (\<lambda>n d. real_of_int n * (d - m) ^ 2) rep_data days)"
proof (rule sum_list_nonneg)
  fix x assume "x \<in> set (map2 (\<lambda>n d. real_of_int n * (d - m) ^ 2) rep_data days)"
  then obtain n d where nd: "(n, d) \<in> set (zip rep_data days)" "x = real_of_int n * (d - m) ^ 2"
    by auto
  from nd(1) have "n \<in> set rep_data" by (rule set_zip_leftD)
  with assms have "0 \<le> n" by (simp add: list_all_iff)
  with nd(2) show "0 \<le> x" by simp
qed

lemma those_weighted_squares:
  "those (map2 (\<lambda>n d. map_option (\<lambda>x. real_of_int n * (x - m) ^ 2) d) rep_data (map Some days))
     = Some (map2 (\<lambda>n d. real_of_int n * (d - m) ^ 2) rep_data days)"
proof (induction rep_data arbitrary: days)
  case Nil
  then show ?case by simp
next
  case (Cons n ns)
  then show ?case by (cases days) simp_all
qed

lemma variance_of_finite:
  assumes "list_all (\<lambda>n. 0 \<le> n) rep_data"
  shows "\<exists>v. variance_of (map Some days) rep_data tot (Some m) = Some v \<and> 0 \<le> v"
proof (cases "1 < tot")
  case False
  then show ?thesis by (simp add: variance_of_def)
next
  case True
  then have "0 < real_of_int (tot - 1)" by simp
  with weighted_squares_nonneg [OF assms, of m days] True show ?thesis
    by (simp add: variance_of_def np_sum_def those_weighted_squares np_div_def)
qed

lemma std_dev_of_finite:
  assumes "0 \<le> v"
  shows "std_dev_of (Some v) = Some (sqrt v)"
  using assms by (simp add: std_dev_of_def np_sqrt_def)

lemma mgr_of_finite: "\<exists>y. mgr_of (Some m) = Some y"
  by (simp add: mgr_of_def np_div_def)

lemma cv_of_finite: "\<exists>y. cv_of (Some s) (Some m) = Some y"
  by (simp add: cv_of_def np_div_def)

lemma uncertainty_of_finite:
  assumes "0 < tot"
  shows "\<exists>u. uncertainty_of rep_data tot = Some u"
proof -
  let ?fs = "map (\<lambda>n. real_of_int n / real_of_int tot) rep_data"
  have "map (\<lambda>n. np_div (real_of_int n) (real_of_int tot)) rep_data
      = map (\<lambda>n. Some (real_of_int n / real_of_int tot)) rep_data"
    using assms by (simp add: np_div_def)
  then have t: "those (map (\<lambda>n. np_div (real_of_int n) (real_of_int tot)) rep_data) = Some ?fs"
    by (simp only: those_map_Some)
  have "map (\<lambda>f. np_log2 f \<bind> (\<lambda>l. Some (f * l))) (filter (\<lambda>f. 0 < f) ?fs)
      = map (\<lambda>f. Some (f * log 2 f)) (filter (\<lambda>f. 0 < f) ?fs)"
    by (rule map_cong) (simp_all add: np_log2_def)
  then have "np_sum (map (\<lambda>f. np_log2 f \<bind> (\<lambda>l. Some (f * l))) (filter (\<lambda>f. 0 < f) ?fs))
      = Some (sum_list (map (\<lambda>f. f * log 2 f) (filter (\<lambda>f. 0 < f) ?fs)))"
    by (simp only: np_sum_def those_map_Some option.map)
  with t show ?thesis by (simp add: uncertainty_of_def Let_def)
qed

lemma synchrony_of_finite: "\<exists>z. synchrony_of dt rep_data tot = Some z"
  by (simp add: synchrony_of_def Let_def np_div_def)

lemma arcsin_transformation_finite:
  assumes "0 \<le> g" and "g \<le> 100"
  shows "\<exists>a. arcsin_transformation up (Some g) = Some a"
proof (cases "0 < g")
  case False
  then show ?thesis by (simp add: arcsin_transformation_def)
next
  case True
  have u: "sqrt (g / 100) \<le> 1" using assms by simp
  have "0 \<le> sqrt (g / 100)" using assms(1) by simp
  then have l: "- 1 \<le> sqrt (g / 100)" by linarith
  have "\<not> g / 100 < 0" using assms(1) by simp
  then have s: "np_sqrt (g / 100) = Some (sqrt (g / 100))" by (simp only: np_sqrt_def if_False)
  have a: "np_arcsin (sqrt (g / 100)) = Some (arcsin (sqrt (g / 100)))"
    using u l by (simp only: np_arcsin_def simp_thms if_True)
  have "arcsin_transformation up (Some g)
      = py_round up (Some (arcsin (sqrt (g / 100)) * (180 / pi))) 2"
    using True by (simp only: arcsin_transformation_def bind.bind_lunit if_True s a)
  with py_round_finite show ?thesis by simp
qed

lemma arcsin_transformation_over:
  assumes "100 < g"
  shows "arcsin_transformation up (Some g) = None"
proof -
  have "1 < sqrt (g / 100)" using assms by simp
  with assms show ?thesis
    by (simp add: arcsin_transformation_def np_sqrt_def np_arcsin_def)
qed

text \<open>With days that are not blank the loop returns a finite day.\<close>

lemma tx_loop_finite:
  assumes "length days = length cum" "cum \<noteq> []"
  shows "\<exists>r. tx_loop (map Some days) cum target i = Inr (Some r)"
  using assms
proof (induction "length cum - i" arbitrary: i)
  case 0
  then have "\<not> i < length cum" by simp
  moreover from 0 have "days \<noteq> []" by auto
  ultimately show ?case by (simp add: tx_loop_end)
next
  case (Suc k)
  then have lt: "i < length cum" by simp
  show ?case
  proof (cases "target \<le> real_of_int (cum ! i)")
    case True
    with lt Suc.prems(1) show ?thesis by (simp add: tx_loop_stop)
  next
    case False
    have "k = length cum - (i + 1)" using Suc.hyps(2) by simp
    from Suc.hyps(1) [OF this Suc.prems] False lt show ?thesis
      by (simp add: tx_loop_continue)
  qed
qed

lemma py_round_not_None: "py_round up (Some x) n \<noteq> None"
  by (simp add: py_round_def)

lemma all_finite_row:
  assumes "germinability st = Some g" and "0 \<le> g" and "g \<le> 100"
    and "mgt st = Some a1" and "cv st = Some a2" and "mgr st = Some a3"
    and "uncertainty st = Some a4" and "synchrony st = Some a5" and "variance st = Some a6"
    and "std_dev st = Some a7" and "speed_maguire st = Some a8" and "t50 st = Some a9"
  shows "all_finite (result_row tie total_seeds i tg st)"
proof -
  obtain a where "arcsin_transformation (tie ''ArcSin_Transformation'') (Some g) = Some a"
    using arcsin_transformation_finite [OF assms(2,3)] by blast
  with assms show ?thesis
    by (simp add: all_finite_def result_row_def py_round_not_None)
qed

text \<open>
  With counts that are not negative, a positive number of seeds and no more germinated seeds
  than seeds, every field of the row is finite: each division, square root, logarithm and arc
  sine is applied inside its domain.
\<close>

lemma row_finite_within_total:
  assumes "length days = length rep_data" and "list_all (\<lambda>n. 0 \<le> n) rep_data"
    and "0 < total_seeds" and "sum_list rep_data \<le> total_seeds"
  shows "\<exists>r. replicate_record tie total_seeds i (map Some days) dt rep_data = Inr r \<and> all_finite r"
proof -
  let ?tg = "sum_list rep_data"
  obtain st where st: "replicate_stats total_seeds (map Some days) dt rep_data = Inr st"
    and r: "replicate_record tie total_seeds i (map Some days) dt rep_data = Inr (result_row tie total_seeds i ?tg st)"
    using replicate_record_returns [of "map Some days" rep_data total_seeds dt tie i] assms(1) by auto
  have "all_finite (result_row tie total_seeds i ?tg st)"
  proof (cases "0 < ?tg")
    case False
    then have le: "?tg \<le> 0" by simp
    note z = replicate_stats_fields_zero [OF st le]
    show ?thesis
      by (rule all_finite_row [OF z(1) _ _ z(2) z(6) z(3) z(8) z(9) z(4) z(5) z(7) z(10)]) simp_all
  next
    case True
    note f = replicate_stats_fields [OF st True]
    let ?g = "100 * real_of_int ?tg / real_of_int total_seeds"
    have g: "germinability st = Some ?g"
      using f(1) germinability_of_positive [OF assms(3)] by simp
    have g0: "0 \<le> ?g" using True assms(3) by simp
    have "real_of_int ?tg \<le> real_of_int total_seeds" using assms(4) by (simp only: of_int_le_iff)
    then have g1: "?g \<le> 100" using assms(3) by (simp add: pos_divide_le_eq)
    obtain m where m: "mgt st = Some m" using f(2) mgt_of_positive [OF True] by simp
    obtain a3 where a3: "mgr st = Some a3" using f(3) m mgr_of_finite by metis
    obtain v where v: "variance st = Some v" "0 \<le> v"
      using f(4) m variance_of_finite [OF assms(2)] by metis
    have s: "std_dev st = Some (sqrt v)" using f(5) v std_dev_of_finite by simp
    obtain a2 where a2: "cv st = Some a2" using f(6) s m cv_of_finite by metis
    obtain a8 where a8: "speed_maguire st = Some a8" using f(7) speed_maguire_of_eq by simp
    obtain a4 where a4: "uncertainty st = Some a4" using f(8) uncertainty_of_finite [OF True] by metis
    obtain a5 where a5: "synchrony st = Some a5" using f(9) synchrony_of_finite by metis
    have "cumsum rep_data \<noteq> []" using True by (auto simp: cumsum_def cumsum_from_Nil_iff)
    moreover have "length days = length (cumsum rep_data)" using assms(1) by (simp add: length_cumsum)
    ultimately obtain a9 where
      "tx_loop (map Some days) (cumsum rep_data) (real_of_int ?tg * (1 / 2)) 0 = Inr (Some a9)"
      using tx_loop_finite by blast
    with True f(10) have a9: "t50 st = Some a9" by (simp add: calculate_tx_def)
    show ?thesis
      by (rule all_finite_row [OF g g0 g1 m a2 a3 a4 a5 v(1) s a8 a9])
  qed
  with r show ?thesis by blast
qed

text \<open>
  With more germinated seeds than seeds the germinability is above 100, and the arc sine
  transform, guarded only by \<^verbatim>\<open>germinability > 0\<close>, is \<^verbatim>\<open>nan\<close>.
\<close>

lemma row_arcsine_over_total:
  assumes "length days = length rep_data" and "0 < total_seeds"
    and "total_seeds < sum_list rep_data"
  shows "\<exists>r. replicate_record tie total_seeds i (map Some days) dt rep_data = Inr r \<and>
           ArcSin_Transformation r = None \<and> \<not> all_finite r"
proof -
  let ?tg = "sum_list rep_data"
  obtain st where st: "replicate_stats total_seeds (map Some days) dt rep_data = Inr st"
    and r: "replicate_record tie total_seeds i (map Some days) dt rep_data = Inr (result_row tie total_seeds i ?tg st)"
    using replicate_record_returns [of "map Some days" rep_data total_seeds dt tie i] assms(1) by auto
  from assms(2,3) have pos: "0 < ?tg" by simp
  let ?g = "100 * real_of_int ?tg / real_of_int total_seeds"
  have g: "germinability st = Some ?g"
    using replicate_stats_fields(1) [OF st pos] germinability_of_positive [OF assms(2)] by simp
  have "real_of_int total_seeds < real_of_int ?tg" using assms(3) by (simp only: of_int_less_iff)
  then have "100 < ?g" using assms(2) by (simp add: pos_less_divide_eq)
  then have "arcsin_transformation (tie ''ArcSin_Transformation'') (Some ?g) = None"
    by (rule arcsin_transformation_over)
  with g have "ArcSin_Transformation (result_row tie total_seeds i ?tg st) = None"
    by (simp add: result_row_def)
  then show ?thesis using r by (auto simp: all_finite_def)
qed

lemma tx_over_count: "calculate_tx (map Some [1]) [30] 30 (1 / 2) = Inr (Some 1)"
  by code_simp

text \<open>
  C7, at an input where it fails. One replicate with 30 germinated seeds on day 1 and 25 seeds
  declared: the engine returns a row with germinability 120, and its arc sine transform is
  \<^verbatim>\<open>arcsin(sqrt(1.2))\<close>, which is not finite. The claim says that no field of any row is ever
  \<^verbatim>\<open>nan\<close>.
\<close>

theorem arcsine_nan_over_count:
  "map_sum id (map Total_Seeds) (calculate_all_germination_parameters tie 25 over_count) = Inr [25] \<and>
   map_sum id (map Germinated_Seeds) (calculate_all_germination_parameters tie 25 over_count) = Inr [30] \<and>
   map_sum id (map G_Germinability) (calculate_all_germination_parameters tie 25 over_count) = Inr [Some 120] \<and>
   map_sum id (map ArcSin_Transformation) (calculate_all_germination_parameters tie 25 over_count) = Inr [None] \<and>
   map_sum id (map all_finite) (calculate_all_germination_parameters tie 25 over_count) = Inr [False]"
proof -
  have "arcsin_transformation (tie 0 ''ArcSin_Transformation'') (Some 120) = None"
    by (rule arcsin_transformation_over) simp
  then show ?thesis
    using tx_over_count
    by (simp add: over_count_def calculate_all_germination_parameters_def day_values_def
      rep_columns_def columns_def enumerate_eq_zip replicate_record_def replicate_stats_def
      values_of_ints fillna_ints dtype_of_ints result_row_def Let_def germinability_of_def np_div_def py_round_def rint_def
      all_finite_def)
qed

end
